theory Spec2Isabelle
  imports Main "HOL-Library.Word" "HOL-Library.Sublist"
begin

unbundle bit_operations_syntax

section \<open>Python values, exceptions and string formatting\<close>

text \<open>
  The MCP server \<^verbatim>\<open>paperscraper/mcp_server.py\<close> receives the arguments of a tool call as
  a dictionary decoded from JSON. Its handlers are dynamically typed, so the values are
  modelled by one datatype of the Python objects JSON decoding yields. A float is kept as
  its IEEE-754 bit pattern: the only operation the handlers perform on one is the truth
  test. Strings are byte strings holding UTF-8, so the three non-ASCII characters of the
  responses (the check mark, the ballot cross and the bullet) are three bytes each;
  iterating over a string yields its characters, each with all its bytes.
\<close>

datatype pyval =
    PNone
  | PBool bool
  | PInt int
  | PFloat "64 word"
  | PStr string
  | PList "pyval list"
  | PDict "(string \<times> pyval) list"

type_synonym pydict = "string \<rightharpoonup> pyval"

text \<open>
  Instances of Python's \<^verbatim>\<open>Exception\<close>: the built-in ones the handlers themselves can
  raise, and \<^verbatim>\<open>OtherError cls msg\<close> for whatever a collaborator raises. \<^verbatim>\<open>exn_msg\<close> is
  \<^verbatim>\<open>str(e)\<close>. (\<^verbatim>\<open>KeyboardInterrupt\<close> and \<^verbatim>\<open>SystemExit\<close> are not instances of
  \<^verbatim>\<open>Exception\<close> and are outside this model.)
\<close>

datatype exn =
    KeyError string
  | TypeError string
  | AttributeError string
  | ValueError string
  | FileNotFoundError string
  | OtherError string string

fun exn_msg :: "exn \<Rightarrow> string" where
  "exn_msg (KeyError k) = [CHR 0x27] @ k @ [CHR 0x27]"
| "exn_msg (TypeError m) = m"
| "exn_msg (AttributeError m) = m"
| "exn_msg (ValueError m) = m"
| "exn_msg (FileNotFoundError m) = m"
| "exn_msg (OtherError c m) = m"

fun truthy :: "pyval \<Rightarrow> bool" where
  "truthy PNone = False"
| "truthy (PBool b) = b"
| "truthy (PInt i) = (i \<noteq> 0)"
| "truthy (PFloat w) = (w AND 0x7FFFFFFFFFFFFFFF \<noteq> 0)"
| "truthy (PStr s) = (s \<noteq> [])"
| "truthy (PList xs) = (xs \<noteq> [])"
| "truthy (PDict kvs) = (kvs \<noteq> [])"

fun py_type_name :: "pyval \<Rightarrow> string" where
  "py_type_name PNone = ''NoneType''"
| "py_type_name (PBool b) = ''bool''"
| "py_type_name (PInt i) = ''int''"
| "py_type_name (PFloat w) = ''float''"
| "py_type_name (PStr s) = ''str''"
| "py_type_name (PList xs) = ''list''"
| "py_type_name (PDict kvs) = ''dict''"

definition digit_char :: "nat \<Rightarrow> char" where
  "digit_char d = ''0123456789'' ! d"

fun str_nat :: "nat \<Rightarrow> string" where
  "str_nat n = (if n < 10 then [digit_char n] else str_nat (n div 10) @ [digit_char (n mod 10)])"

declare str_nat.simps [simp del]

definition str_int :: "int \<Rightarrow> string" where
  "str_int i = (if i < 0 then ''-'' @ str_nat (nat (- i)) else str_nat (nat i))"

text \<open>The format specification \<^verbatim>\<open>{n:,}\<close>: decimal digits in groups of three.\<close>

fun group3 :: "string \<Rightarrow> string" where
  "group3 (a # b # c # d # rest) = a # b # c # CHR '','' # group3 (d # rest)"
| "group3 ds = ds"

definition str_nat_commas :: "nat \<Rightarrow> string" where
  "str_nat_commas n = rev (group3 (rev (str_nat n)))"

text \<open>
  \<^verbatim>\<open>str(v)\<close> as an f-string field applies it. A string formats as itself, \<^verbatim>\<open>None\<close>, the
  booleans and the integers as Python prints them; the text of a float, a list or a
  dictionary is left to the parameter \<^verbatim>\<open>repr\<close> (the interpreter's own \<^verbatim>\<open>repr\<close>).
\<close>

fun py_str :: "(pyval \<Rightarrow> string) \<Rightarrow> pyval \<Rightarrow> string" where
  "py_str repr PNone = ''None''"
| "py_str repr (PBool b) = (if b then ''True'' else ''False'')"
| "py_str repr (PInt i) = str_int i"
| "py_str repr (PStr s) = s"
| "py_str repr v = repr v"

definition upper_char :: "char \<Rightarrow> char" where
  "upper_char c = (let n = (of_char c :: nat) in if 97 \<le> n \<and> n \<le> 122 then char_of (n - 32) else c)"

text \<open>\<^verbatim>\<open>str.upper\<close>, exact on ASCII text (the keys of the query index are ASCII).\<close>

definition py_upper :: "string \<Rightarrow> string" where
  "py_upper s = map upper_char s"

text \<open>\<^verbatim>\<open>d.get(k, default)\<close> on a dictionary.\<close>

definition dict_get :: "pydict \<Rightarrow> string \<Rightarrow> pyval \<Rightarrow> pyval" where
  "dict_get d k dflt = (case d k of None \<Rightarrow> dflt | Some v \<Rightarrow> v)"

text \<open>\<^verbatim>\<open>d[k]\<close>: raises \<^verbatim>\<open>KeyError\<close> on a missing key.\<close>

definition dict_index :: "pydict \<Rightarrow> string \<Rightarrow> exn + pyval" where
  "dict_index d k = (case d k of None \<Rightarrow> Inl (KeyError k) | Some v \<Rightarrow> Inr v)"

text \<open>
  The characters of a string: in UTF-8 a character is one leading byte and the continuation
  bytes (\<^verbatim>\<open>10xxxxxx\<close>) that follow it.
\<close>

definition is_continuation :: "char \<Rightarrow> bool" where
  "is_continuation c = (let n = (of_char c :: nat) in 128 \<le> n \<and> n < 192)"

fun utf8_chars :: "string \<Rightarrow> string list" where
  "utf8_chars [] = []"
| "utf8_chars (c # cs) =
     (case utf8_chars cs of
        [] \<Rightarrow> [[c]]
      | [] # gs \<Rightarrow> [c] # [] # gs
      | (b # g) # gs \<Rightarrow> if is_continuation b then (c # b # g) # gs else [c] # (b # g) # gs)"

text \<open>
  \<^verbatim>\<open>for x in v\<close>: a list yields its items, a string its characters, a dictionary its keys;
  any other value raises \<^verbatim>\<open>TypeError\<close>.
\<close>

fun py_iter :: "pyval \<Rightarrow> exn + pyval list" where
  "py_iter (PList xs) = Inr xs"
| "py_iter (PStr s) = Inr (map PStr (utf8_chars s))"
| "py_iter (PDict kvs) = Inr (map (\<lambda>kv. PStr (fst kv)) kvs)"
| "py_iter v = Inl (TypeError ([CHR 0x27] @ py_type_name v @ [CHR 0x27] @ '' object is not iterable''))"

text \<open>Whether \<^verbatim>\<open>hash(v)\<close> succeeds; lists and dictionaries are unhashable.\<close>

fun hashable :: "pyval \<Rightarrow> bool" where
  "hashable (PList xs) = False"
| "hashable (PDict kvs) = False"
| "hashable v = True"

definition check_mark :: string where
  "check_mark = [CHR 0xE2, CHR 0x9C, CHR 0x93]"

definition ballot_x :: string where
  "ballot_x = [CHR 0xE2, CHR 0x9C, CHR 0x97]"

definition bullet :: string where
  "bullet = [CHR 0xE2, CHR 0x80, CHR 0xA2]"

section \<open>Collaborators, temporary resources and the call log\<close>

text \<open>
  A record of a search result, as \<^verbatim>\<open>load_jsonl\<close> returns it: a dictionary.
\<close>

type_synonym paper = pydict

text \<open>
  Every invocation of a collaborator (a function imported from the paperscraper library)
  is appended to a log, with the arguments the handler passes. \<^verbatim>\<open>None\<close> for
  \<^verbatim>\<open>max_results\<close> or for the dates means that the keyword argument is not passed.
\<close>

datatype call =
    PubmedCall pyval string "pyval option"
  | ArxivCall pyval string "pyval option"
  | ScholarCall pyval string
  | XrxivCall string pyval string
  | CitationsByDoi pyval
  | CitationsFromTitle pyval
  | ImpactorInit
  | ImpactorSearch pyval "(string \<times> pyval) list"
  | SavePdf pyval string
  | DumpRefresh string "(pyval \<times> pyval) option"

text \<open>
  What a dumping collaborator does with the output file it is given: it returns or raises,
  and afterwards the file holds records or is gone.
\<close>

datatype dump_outcome = DumpOutcome (raised: "exn option") (file_after: "paper list option")

text \<open>
  The behaviour of the collaborators, as functions of the arguments they receive other
  than the output path. \<^verbatim>\<open>dump_loaded db\<close> says that \<^verbatim>\<open>load_dumps.py\<close> found a non-empty
  dump for \<^verbatim>\<open>db\<close> whose \<^verbatim>\<open>XRXivQuery\<close> did not err. \<^verbatim>\<open>save_pdf\<close> returns a value or
  raises, and leaves a file of some size at the path it was given, or none.
\<close>

record env =
  get_and_dump_pubmed_papers :: "pyval \<Rightarrow> pyval option \<Rightarrow> dump_outcome"
  get_and_dump_arxiv_papers :: "pyval \<Rightarrow> pyval option \<Rightarrow> dump_outcome"
  get_and_dump_scholar_papers :: "pyval \<Rightarrow> dump_outcome"
  search_keywords :: "string \<Rightarrow> pyval \<Rightarrow> dump_outcome"
  dump_loaded :: "string \<Rightarrow> bool"
  get_citations_by_doi :: "pyval \<Rightarrow> exn + pyval"
  get_citations_from_title :: "pyval \<Rightarrow> exn + pyval"
  Impactor :: "exn option"
  impactor_search :: "pyval \<Rightarrow> (string \<times> pyval) list \<Rightarrow> exn + pydict list"
  save_pdf :: "pyval \<Rightarrow> string \<Rightarrow> (exn + pyval) \<times> nat option"
  refresh_dump :: "string \<Rightarrow> (pyval \<times> pyval) option \<Rightarrow> exn option"
  repr :: "pyval \<Rightarrow> string"

text \<open>
  The state a call runs in: the temporary files alive (each with the records it holds),
  the temporary directories alive, the files \<^verbatim>\<open>save_pdf\<close> has written (each under the
  components of its normalised absolute path, with its size), and the log of collaborator
  invocations.
\<close>

record world =
  tmp_files :: "(nat \<times> paper list) list"
  tmp_dirs :: "nat list"
  files :: "(string list \<times> nat) list"
  calls :: "call list"

text \<open>\<^verbatim>\<open>tempfile\<close> picks a name that does not exist yet.\<close>

definition fresh_id :: "world \<Rightarrow> nat" where
  "fresh_id w = Suc (fold max (map fst (tmp_files w) @ tmp_dirs w) 0)"

definition tmp_path :: "nat \<Rightarrow> string" where
  "tmp_path n = ''/tmp/tmp'' @ str_nat n"

definition jsonl_path :: "nat \<Rightarrow> string" where
  "jsonl_path n = tmp_path n @ ''.jsonl''"

text \<open>
  \<^verbatim>\<open>with tempfile.NamedTemporaryFile(mode='w+', suffix='.jsonl', delete=False) as f\<close>:
  an empty file that stays when the \<^verbatim>\<open>with\<close> block closes it.
\<close>

definition NamedTemporaryFile :: "world \<Rightarrow> nat \<times> world" where
  "NamedTemporaryFile w = (let n = fresh_id w in (n, w\<lparr>tmp_files := (n, []) # tmp_files w\<rparr>))"

definition path_exists :: "nat \<Rightarrow> world \<Rightarrow> bool" where
  "path_exists n w = (map_of (tmp_files w) n \<noteq> None)"

definition unlink :: "nat \<Rightarrow> world \<Rightarrow> world" where
  "unlink n w = w\<lparr>tmp_files := filter (\<lambda>kv. fst kv \<noteq> n) (tmp_files w)\<rparr>"

definition TemporaryDirectory :: "world \<Rightarrow> nat \<times> world" where
  "TemporaryDirectory w = (let n = fresh_id w in (n, w\<lparr>tmp_dirs := n # tmp_dirs w\<rparr>))"

text \<open>
  The components of an absolute path: the path is split at \<^verbatim>\<open>/\<close>, empty components and
  \<^verbatim>\<open>.\<close> are dropped, and \<^verbatim>\<open>..\<close> leaves the directory reached so far (the root is its
  own parent).
\<close>

fun split_slash :: "string \<Rightarrow> string \<Rightarrow> string list" where
  "split_slash cur [] = [rev cur]"
| "split_slash cur (c # cs) =
     (if c = CHR ''/'' then rev cur # split_slash [] cs else split_slash (c # cur) cs)"

fun resolve :: "string list \<Rightarrow> string list \<Rightarrow> string list" where
  "resolve up [] = rev up"
| "resolve up (c # cs) =
     (if c = [] \<or> c = ''.'' then resolve up cs
      else if c = ''..'' then resolve (case up of [] \<Rightarrow> [] | d # ds \<Rightarrow> ds) cs
      else resolve (c # up) cs)"

definition path_components :: "string \<Rightarrow> string list" where
  "path_components p = resolve [] (split_slash [] p)"

text \<open>Whether a file lies in the temporary directory \<open>n\<close> or below it.\<close>

definition inside_dir :: "nat \<Rightarrow> string list \<Rightarrow> bool" where
  "inside_dir n p = strict_prefix (path_components (tmp_path n)) p"

text \<open>
  The file a collaborator leaves at a path it was given: \<^verbatim>\<open>Some bytes\<close>, its size, when a
  file is there after the call, \<^verbatim>\<open>None\<close> when there is none.
\<close>

definition write_file :: "string \<Rightarrow> nat option \<Rightarrow> world \<Rightarrow> world" where
  "write_file path file w =
     (let others = filter (\<lambda>f. fst f \<noteq> path_components path) (files w)
      in case file of
           None \<Rightarrow> w\<lparr>files := others\<rparr>
         | Some bytes \<Rightarrow> w\<lparr>files := (path_components path, bytes) # others\<rparr>)"

text \<open>
  Leaving \<^verbatim>\<open>with tempfile.TemporaryDirectory()\<close> removes the directory and its content:
  the files that lie in it or below it, and no other file.
\<close>

definition cleanup_dir :: "nat \<Rightarrow> world \<Rightarrow> world" where
  "cleanup_dir n w =
     w\<lparr>tmp_dirs := filter (\<lambda>d. d \<noteq> n) (tmp_dirs w),
       files := filter (\<lambda>f. \<not> inside_dir n (fst f)) (files w)\<rparr>"

definition dump_effect :: "nat \<Rightarrow> paper list option \<Rightarrow> world \<Rightarrow> world" where
  "dump_effect n fa w =
     (case fa of
        None \<Rightarrow> unlink n w
      | Some ps \<Rightarrow> w\<lparr>tmp_files := (n, ps) # filter (\<lambda>kv. fst kv \<noteq> n) (tmp_files w)\<rparr>)"

definition load_jsonl :: "nat \<Rightarrow> world \<Rightarrow> exn + paper list" where
  "load_jsonl n w =
     (case map_of (tmp_files w) n of
        None \<Rightarrow> Inl (FileNotFoundError (''[Errno 2] No such file or directory: '' @ [CHR 0x27] @ jsonl_path n @ [CHR 0x27]))
      | Some ps \<Rightarrow> Inr ps)"

text \<open>
  The two statements every search handler runs inside its \<^verbatim>\<open>try\<close>: the dumping
  collaborator, called with the temporary file as \<^verbatim>\<open>output_filepath\<close>, then
  \<^verbatim>\<open>load_jsonl(temp_file)\<close>.
\<close>

definition dump_then_load :: "call \<Rightarrow> dump_outcome \<Rightarrow> nat \<Rightarrow> world \<Rightarrow> (exn + paper list) \<times> world" where
  "dump_then_load c out n w =
     (let w1 = dump_effect n (file_after out) (w\<lparr>calls := calls w @ [c]\<rparr>)
      in case raised out of
           Some e \<Rightarrow> (Inl e, w1)
         | None \<Rightarrow> (load_jsonl n w1, w1))"

text \<open>The \<^verbatim>\<open>finally\<close> clause: \<^verbatim>\<open>if os.path.exists(temp_file): os.unlink(temp_file)\<close>.\<close>

definition finally_unlink :: "nat \<Rightarrow> world \<Rightarrow> world" where
  "finally_unlink n w = (if path_exists n w then unlink n w else w)"

text \<open>
  \<^verbatim>\<open>QUERY_FN_DICT\<close> of \<^verbatim>\<open>load_dumps.py\<close>: arXiv and PubMed always, then each of bioRxiv,
  chemRxiv and medRxiv whose dump was loaded. A query function takes the query and the
  output path; for a query it yields the invocation it amounts to, as a function of the
  output path, and that invocation's outcome.
\<close>

type_synonym query_fn = "pyval \<Rightarrow> (string \<Rightarrow> call) \<times> dump_outcome"

definition QUERY_FN_DICT :: "env \<Rightarrow> (string \<times> query_fn) list" where
  "QUERY_FN_DICT env =
     [(''arxiv'', \<lambda>q. (\<lambda>p. ArxivCall q p None, get_and_dump_arxiv_papers env q None)),
      (''pubmed'', \<lambda>q. (\<lambda>p. PubmedCall q p None, get_and_dump_pubmed_papers env q None))]
     @ map (\<lambda>db. (db, \<lambda>q. (\<lambda>p. XrxivCall db q p, search_keywords env db q)))
           (filter (dump_loaded env) [''biorxiv'', ''chemrxiv'', ''medrxiv''])"

datatype TextContent = TextContent (content_type: string) (content_text: string)

section \<open>The search handlers\<close>

type_synonym handler_result = "(exn + TextContent list) \<times> world"

text \<open>
  \<^verbatim>\<open>for i, paper in enumerate(papers): response += entry(i, paper)\<close>, the loop of every
  search handler, with the text appended per record as a parameter.
\<close>

fun enumerate_loop :: "(nat \<Rightarrow> paper \<Rightarrow> string) \<Rightarrow> nat \<Rightarrow> paper list \<Rightarrow> string \<Rightarrow> string" where
  "enumerate_loop entry i [] response = response"
| "enumerate_loop entry i (paper # rest) response =
     enumerate_loop entry (Suc i) rest (response @ entry i paper)"

definition pubmed_entry :: "env \<Rightarrow> nat \<Rightarrow> paper \<Rightarrow> string" where
  "pubmed_entry env i paper =
     str_nat (i + 1) @ ''. '' @ py_str (repr env) (dict_get paper ''title'' (PStr ''No title'')) @ ''\<newline>''
     @ ''   Authors: '' @ py_str (repr env) (dict_get paper ''authors'' (PStr ''Unknown'')) @ ''\<newline>''
     @ ''   Journal: '' @ py_str (repr env) (dict_get paper ''journal'' (PStr ''Unknown'')) @ ''\<newline>''
     @ ''   Year: '' @ py_str (repr env) (dict_get paper ''date'' (PStr ''Unknown'')) @ ''\<newline>''
     @ (if truthy (dict_get paper ''doi'' PNone)
        then ''   DOI: '' @ py_str (repr env) (dict_get paper ''doi'' PNone) @ ''\<newline>'' else [])
     @ ''\<newline>''"

definition render_pubmed :: "env \<Rightarrow> paper list \<Rightarrow> string" where
  "render_pubmed env results =
     (let response = ''Found '' @ str_nat (length results) @ '' papers in PubMed\<newline>\<newline>'';
          response = enumerate_loop (pubmed_entry env) 0 (take 10 results) response
      in if length results > 10
         then response @ ''... and '' @ str_nat (length results - 10) @ '' more results\<newline>''
         else response)"

definition search_pubmed :: "env \<Rightarrow> pydict \<Rightarrow> world \<Rightarrow> handler_result" where
  "search_pubmed env arguments w =
     (case dict_index arguments ''query'' of
        Inl e \<Rightarrow> (Inl e, w)
      | Inr query \<Rightarrow>
          let max_results = dict_get arguments ''max_results'' (PInt 100);
              (temp_file, w1) = NamedTemporaryFile w;
              (r, w2) = dump_then_load (PubmedCall query (jsonl_path temp_file) (Some max_results))
                          (get_and_dump_pubmed_papers env query (Some max_results)) temp_file w1;
              w3 = finally_unlink temp_file w2
          in (case r of
                Inl e \<Rightarrow> (Inl e, w3)
              | Inr results \<Rightarrow> (Inr [TextContent ''text'' (render_pubmed env results)], w3)))"

definition arxiv_entry :: "env \<Rightarrow> nat \<Rightarrow> paper \<Rightarrow> string" where
  "arxiv_entry env i paper =
     str_nat (i + 1) @ ''. '' @ py_str (repr env) (dict_get paper ''title'' (PStr ''No title'')) @ ''\<newline>''
     @ ''   Authors: '' @ py_str (repr env) (dict_get paper ''authors'' (PStr ''Unknown'')) @ ''\<newline>''
     @ ''   Published: '' @ py_str (repr env) (dict_get paper ''date'' (PStr ''Unknown'')) @ ''\<newline>''
     @ (if truthy (dict_get paper ''doi'' PNone)
        then ''   DOI: '' @ py_str (repr env) (dict_get paper ''doi'' PNone) @ ''\<newline>'' else [])
     @ (if truthy (dict_get paper ''url'' PNone)
        then ''   URL: '' @ py_str (repr env) (dict_get paper ''url'' PNone) @ ''\<newline>'' else [])
     @ ''\<newline>''"

definition render_arxiv :: "env \<Rightarrow> paper list \<Rightarrow> string" where
  "render_arxiv env results =
     (let response = ''Found '' @ str_nat (length results) @ '' papers in arXiv\<newline>\<newline>'';
          response = enumerate_loop (arxiv_entry env) 0 (take 10 results) response
      in if length results > 10
         then response @ ''... and '' @ str_nat (length results - 10) @ '' more results\<newline>''
         else response)"

definition search_arxiv :: "env \<Rightarrow> pydict \<Rightarrow> world \<Rightarrow> handler_result" where
  "search_arxiv env arguments w =
     (case dict_index arguments ''query'' of
        Inl e \<Rightarrow> (Inl e, w)
      | Inr query \<Rightarrow>
          let max_results = dict_get arguments ''max_results'' (PInt 100);
              (temp_file, w1) = NamedTemporaryFile w;
              (r, w2) = dump_then_load (ArxivCall query (jsonl_path temp_file) (Some max_results))
                          (get_and_dump_arxiv_papers env query (Some max_results)) temp_file w1;
              w3 = finally_unlink temp_file w2
          in (case r of
                Inl e \<Rightarrow> (Inl e, w3)
              | Inr results \<Rightarrow> (Inr [TextContent ''text'' (render_arxiv env results)], w3)))"

definition scholar_entry :: "env \<Rightarrow> nat \<Rightarrow> paper \<Rightarrow> string" where
  "scholar_entry env i paper =
     str_nat (i + 1) @ ''. '' @ py_str (repr env) (dict_get paper ''title'' (PStr ''No title'')) @ ''\<newline>''
     @ ''   Authors: '' @ py_str (repr env) (dict_get paper ''authors'' (PStr ''Unknown'')) @ ''\<newline>''
     @ ''   Year: '' @ py_str (repr env) (dict_get paper ''date'' (PStr ''Unknown'')) @ ''\<newline>''
     @ (if truthy (dict_get paper ''citations'' PNone)
        then ''   Citations: '' @ py_str (repr env) (dict_get paper ''citations'' PNone) @ ''\<newline>'' else [])
     @ ''\<newline>''"

definition render_scholar :: "env \<Rightarrow> paper list \<Rightarrow> string" where
  "render_scholar env results =
     (let response = ''Found '' @ str_nat (length results) @ '' papers in Google Scholar\<newline>\<newline>'';
          response = enumerate_loop (scholar_entry env) 0 (take 10 results) response
      in if length results > 10
         then response @ ''... and '' @ str_nat (length results - 10) @ '' more results\<newline>''
         else response)"

text \<open>
  \<^verbatim>\<open>search_scholar\<close> reads \<^verbatim>\<open>max_results\<close> (default 50) into a local variable and never
  uses it: the collaborator is called with the topic and the output path only.
\<close>

definition search_scholar :: "env \<Rightarrow> pydict \<Rightarrow> world \<Rightarrow> handler_result" where
  "search_scholar env arguments w =
     (case dict_index arguments ''topic'' of
        Inl e \<Rightarrow> (Inl e, w)
      | Inr topic \<Rightarrow>
          let max_results = dict_get arguments ''max_results'' (PInt 50);
              (temp_file, w1) = NamedTemporaryFile w;
              (r, w2) = dump_then_load (ScholarCall topic (jsonl_path temp_file))
                          (get_and_dump_scholar_papers env topic) temp_file w1;
              w3 = finally_unlink temp_file w2
          in (case r of
                Inl e \<Rightarrow> (Inl e, w3)
              | Inr results \<Rightarrow> (Inr [TextContent ''text'' (render_scholar env results)], w3)))"

subsection \<open>The preprint servers\<close>

definition preprint_entry :: "env \<Rightarrow> nat \<Rightarrow> paper \<Rightarrow> string" where
  "preprint_entry env i paper =
     ''  '' @ str_nat (i + 1) @ ''. '' @ py_str (repr env) (dict_get paper ''title'' (PStr ''No title'')) @ ''\<newline>''
     @ ''     Authors: '' @ py_str (repr env) (dict_get paper ''authors'' (PStr ''Unknown'')) @ ''\<newline>''
     @ ''     Date: '' @ py_str (repr env) (dict_get paper ''date'' (PStr ''Unknown'')) @ ''\<newline>''
     @ (if truthy (dict_get paper ''doi'' PNone)
        then ''     DOI: '' @ py_str (repr env) (dict_get paper ''doi'' PNone) @ ''\<newline>'' else [])
     @ ''\<newline>''"

text \<open>What one server adds to \<^verbatim>\<open>response\<close>: its header line and at most five records.\<close>

definition preprint_section :: "env \<Rightarrow> string \<Rightarrow> paper list \<Rightarrow> string \<Rightarrow> string" where
  "preprint_section env server results response =
     (let response = response @ ''\<newline>'' @ py_upper server @ '': Found '' @ str_nat (length results)
                       @ '' papers\<newline>''
      in enumerate_loop (preprint_entry env) 0 (take 5 results) response)"

text \<open>
  \<^verbatim>\<open>server in QUERY_FN_DICT\<close> hashes the item, so a list or a dictionary raises
  \<^verbatim>\<open>TypeError\<close>; of the other values only a string can equal a key.
\<close>

definition lookup_query_fn :: "env \<Rightarrow> pyval \<Rightarrow> exn + (string \<times> query_fn) option" where
  "lookup_query_fn env server =
     (if \<not> hashable server
      then Inl (TypeError (''unhashable type: '' @ [CHR 0x27] @ py_type_name server @ [CHR 0x27]))
      else case server of
             PStr s \<Rightarrow> Inr (map_option (\<lambda>fn. (s, fn)) (map_of (QUERY_FN_DICT env) s))
           | _ \<Rightarrow> Inr None)"

text \<open>One iteration of \<^verbatim>\<open>for server in servers\<close>, on the pair of \<^verbatim>\<open>all_results\<close> and \<^verbatim>\<open>response\<close>.\<close>

definition preprint_step ::
  "env \<Rightarrow> pyval \<Rightarrow> pyval \<Rightarrow> paper list \<times> string \<Rightarrow> world \<Rightarrow> (exn + paper list \<times> string) \<times> world" where
  "preprint_step env query server st w =
     (case lookup_query_fn env server of
        Inl e \<Rightarrow> (Inl e, w)
      | Inr None \<Rightarrow> (Inr st, w)
      | Inr (Some (s, fn)) \<Rightarrow>
          let (temp_file, w1) = NamedTemporaryFile w;
              (c, out) = fn query;
              (r, w2) = dump_then_load (c (jsonl_path temp_file)) out temp_file w1;
              w3 = finally_unlink temp_file w2
          in (case r of
                Inl e \<Rightarrow> (Inl e, w3)
              | Inr results \<Rightarrow> (Inr (fst st @ results, preprint_section env s results (snd st)), w3)))"

fun preprint_loop ::
  "env \<Rightarrow> pyval \<Rightarrow> pyval list \<Rightarrow> paper list \<times> string \<Rightarrow> world \<Rightarrow> (exn + paper list \<times> string) \<times> world" where
  "preprint_loop env query [] st w = (Inr st, w)"
| "preprint_loop env query (server # rest) st w =
     (case preprint_step env query server st w of
        (Inl e, w') \<Rightarrow> (Inl e, w')
      | (Inr st', w') \<Rightarrow> preprint_loop env query rest st' w')"

definition default_servers :: pyval where
  "default_servers = PList [PStr ''biorxiv'', PStr ''medrxiv'', PStr ''chemrxiv'']"

definition search_preprint_servers :: "env \<Rightarrow> pydict \<Rightarrow> world \<Rightarrow> handler_result" where
  "search_preprint_servers env arguments w =
     (case dict_index arguments ''query'' of
        Inl e \<Rightarrow> (Inl e, w)
      | Inr query \<Rightarrow>
          (case py_iter (dict_get arguments ''servers'' default_servers) of
             Inl e \<Rightarrow> (Inl e, w)
           | Inr servers \<Rightarrow>
               (case preprint_loop env query servers ([], []) w of
                  (Inl e, w') \<Rightarrow> (Inl e, w')
                | (Inr (all_results, response), w') \<Rightarrow>
                    (Inr [TextContent ''text''
                            (''Total papers found across '' @ str_nat (length servers) @ '' servers: ''
                             @ str_nat (length all_results) @ ''\<newline>'' @ response)], w'))))"

section \<open>Citations, journal impact, PDF download and dump refresh\<close>

definition get_citations :: "env \<Rightarrow> pydict \<Rightarrow> world \<Rightarrow> handler_result" where
  "get_citations env arguments w =
     (let title = dict_get arguments ''title'' PNone;
          doi = dict_get arguments ''doi'' PNone
      in if truthy doi then
           (let w1 = w\<lparr>calls := calls w @ [CitationsByDoi doi]\<rparr>
            in (case get_citations_by_doi env doi of
                  Inl e \<Rightarrow> (Inr [TextContent ''text'' (''Error retrieving citations: '' @ exn_msg e)], w1)
                | Inr citations \<Rightarrow>
                    (Inr [TextContent ''text''
                            (''Citations for DOI '' @ py_str (repr env) doi @ '': ''
                             @ py_str (repr env) citations)], w1)))
         else if truthy title then
           (let w1 = w\<lparr>calls := calls w @ [CitationsFromTitle title]\<rparr>
            in (case get_citations_from_title env title of
                  Inl e \<Rightarrow> (Inr [TextContent ''text'' (''Error retrieving citations: '' @ exn_msg e)], w1)
                | Inr citations \<Rightarrow>
                    (Inr [TextContent ''text''
                            (''Citations for '' @ [CHR 0x27] @ py_str (repr env) title @ [CHR 0x27] @ '': ''
                             @ py_str (repr env) citations)], w1)))
         else (Inr [TextContent ''text'' ''Error: Either title or DOI must be provided''], w))"

text \<open>
  The three lines a journal adds to the response; \<^verbatim>\<open>result['journal']\<close>,
  \<^verbatim>\<open>result['factor']\<close> and \<^verbatim>\<open>result['score']\<close> raise \<^verbatim>\<open>KeyError\<close> on a missing key.
\<close>

definition impact_entry :: "env \<Rightarrow> pydict \<Rightarrow> exn + string" where
  "impact_entry env result =
     (case dict_index result ''journal'' of
        Inl e \<Rightarrow> Inl e
      | Inr journal \<Rightarrow>
          (case dict_index result ''factor'' of
             Inl e \<Rightarrow> Inl e
           | Inr factor \<Rightarrow>
               (case dict_index result ''score'' of
                  Inl e \<Rightarrow> Inl e
                | Inr score \<Rightarrow>
                    Inr (bullet @ '' '' @ py_str (repr env) journal @ ''\<newline>''
                         @ ''  Impact Factor: '' @ py_str (repr env) factor @ ''\<newline>''
                         @ ''  Match Score: '' @ py_str (repr env) score @ ''%\<newline>\<newline>''))))"

fun impact_loop :: "env \<Rightarrow> pydict list \<Rightarrow> string \<Rightarrow> exn + string" where
  "impact_loop env [] response = Inr response"
| "impact_loop env (result # rest) response =
     (case impact_entry env result of
        Inl e \<Rightarrow> Inl e
      | Inr lines \<Rightarrow> impact_loop env rest (response @ lines))"

text \<open>
  The options passed to \<^verbatim>\<open>impactor.search\<close>: \<^verbatim>\<open>threshold\<close> and \<^verbatim>\<open>min_impact\<close>, and
  \<^verbatim>\<open>max_impact\<close> under the guard \<^verbatim>\<open>if max_impact:\<close>, a truth test of the value.
\<close>

definition search_args :: "pydict \<Rightarrow> (string \<times> pyval) list" where
  "search_args arguments =
     (let threshold = dict_get arguments ''threshold'' (PInt 85);
          min_impact = dict_get arguments ''min_impact'' (PInt 0);
          max_impact = dict_get arguments ''max_impact'' PNone;
          args = [(''threshold'', threshold), (''min_impact'', min_impact)]
      in if truthy max_impact then args @ [(''max_impact'', max_impact)] else args)"

text \<open>The body of the \<^verbatim>\<open>try\<close> of \<^verbatim>\<open>search_journal_impact\<close>.\<close>

definition search_journal_impact_try :: "env \<Rightarrow> pyval \<Rightarrow> pydict \<Rightarrow> world \<Rightarrow> (exn + string) \<times> world" where
  "search_journal_impact_try env journal_name arguments w =
     (let w1 = w\<lparr>calls := calls w @ [ImpactorInit]\<rparr>
      in (case Impactor env of
            Some e \<Rightarrow> (Inl e, w1)
          | None \<Rightarrow>
              (let w2 = w1\<lparr>calls := calls w1 @ [ImpactorSearch journal_name (search_args arguments)]\<rparr>
               in (case impactor_search env journal_name (search_args arguments) of
                     Inl e \<Rightarrow> (Inl e, w2)
                   | Inr results \<Rightarrow>
                       if results = [] then
                         (Inr (''No journals found matching '' @ [CHR 0x27] @ py_str (repr env) journal_name
                               @ [CHR 0x27]), w2)
                       else
                         (impact_loop env results
                            (''Found '' @ str_nat (length results) @ '' journal(s) matching '' @ [CHR 0x27]
                             @ py_str (repr env) journal_name @ [CHR 0x27] @ '':\<newline>\<newline>''), w2)))))"

definition search_journal_impact :: "env \<Rightarrow> pydict \<Rightarrow> world \<Rightarrow> handler_result" where
  "search_journal_impact env arguments w =
     (case dict_index arguments ''journal_name'' of
        Inl e \<Rightarrow> (Inl e, w)
      | Inr journal_name \<Rightarrow>
          (case search_journal_impact_try env journal_name arguments w of
             (Inl e, w') \<Rightarrow> (Inr [TextContent ''text'' (''Error searching journal impact: '' @ exn_msg e)], w')
           | (Inr response, w') \<Rightarrow> (Inr [TextContent ''text'' response], w')))"

text \<open>
  \<^verbatim>\<open>os.path.join(temp_dir, filename)\<close> on POSIX: an absolute second component replaces the
  first. A component that is no string raises \<^verbatim>\<open>TypeError\<close>.
\<close>

definition path_join :: "string \<Rightarrow> pyval \<Rightarrow> exn + string" where
  "path_join dir v =
     (case v of
        PStr f \<Rightarrow> Inr (if f \<noteq> [] \<and> hd f = CHR ''/'' then f else dir @ ''/'' @ f)
      | _ \<Rightarrow> Inl (TypeError (''join() argument must be str, bytes, or os.PathLike object, not ''
                             @ [CHR 0x27] @ py_type_name v @ [CHR 0x27])))"

text \<open>\<^verbatim>\<open>doi.replace('/', '_')\<close>.\<close>

definition replace_slash :: "string \<Rightarrow> string" where
  "replace_slash d = map (\<lambda>c. if c = CHR ''/'' then CHR ''_'' else c) d"

text \<open>
  The body of the \<^verbatim>\<open>with tempfile.TemporaryDirectory() as temp_dir\<close> block. The file that
  \<^verbatim>\<open>save_pdf\<close> leaves at \<^verbatim>\<open>filepath\<close> is recorded in the state, whether the call returns
  or raises and wherever \<^verbatim>\<open>filepath\<close> points; \<^verbatim>\<open>os.path.exists(filepath)\<close> and
  \<^verbatim>\<open>os.path.getsize(filepath)\<close> read that file.
\<close>

definition download_body :: "env \<Rightarrow> string \<Rightarrow> pyval \<Rightarrow> nat \<Rightarrow> world \<Rightarrow> (exn + string) \<times> world" where
  "download_body env doi filename temp_dir w =
     (case path_join (tmp_path temp_dir) filename of
        Inl e \<Rightarrow> (Inl e, w)
      | Inr filepath \<Rightarrow>
          (let (r, file) = save_pdf env (PStr doi) filepath;
               w1 = write_file filepath file (w\<lparr>calls := calls w @ [SavePdf (PStr doi) filepath]\<rparr>)
           in (case r of
                 Inl e \<Rightarrow> (Inl e, w1)
               | Inr success \<Rightarrow>
                   (case (if truthy success then file else None) of
                      Some file_size \<Rightarrow>
                        (Inr (''Successfully downloaded PDF for DOI: '' @ doi @ ''\<newline>''
                              @ ''File size: '' @ str_nat_commas file_size @ '' bytes\<newline>''
                              @ ''Saved to temporary location: '' @ filepath), w1)
                    | None \<Rightarrow> (Inr (''Failed to download PDF for DOI: '' @ doi), w1)))))"

definition download_paper_pdf :: "env \<Rightarrow> pydict \<Rightarrow> world \<Rightarrow> handler_result" where
  "download_paper_pdf env arguments w =
     (case dict_index arguments ''doi'' of
        Inl e \<Rightarrow> (Inl e, w)
      | Inr (PStr doi) \<Rightarrow>
          (let filename = dict_get arguments ''filename'' (PStr (replace_slash doi @ ''.pdf''));
               (temp_dir, w1) = TemporaryDirectory w;
               (r, w2) = download_body env doi filename temp_dir w1;
               w3 = cleanup_dir temp_dir w2
           in (case r of
                 Inl e \<Rightarrow> (Inr [TextContent ''text'' (''Error downloading PDF: '' @ exn_msg e)], w3)
               | Inr response \<Rightarrow> (Inr [TextContent ''text'' response], w3)))
      | Inr v \<Rightarrow>
          (Inl (AttributeError ([CHR 0x27] @ py_type_name v @ [CHR 0x27]
                                @ '' object has no attribute '' @ [CHR 0x27] @ ''replace'' @ [CHR 0x27])), w))"

text \<open>
  One of \<^verbatim>\<open>biorxiv\<close>, \<^verbatim>\<open>medrxiv\<close>, \<^verbatim>\<open>chemrxiv\<close> of \<^verbatim>\<open>get_dumps\<close>, called with both dates
  when \<^verbatim>\<open>start_date or end_date\<close> holds and without arguments otherwise.
\<close>

definition call_refresh :: "env \<Rightarrow> string \<Rightarrow> pyval \<Rightarrow> pyval \<Rightarrow> world \<Rightarrow> exn option \<times> world" where
  "call_refresh env server start_date end_date w =
     (let dates = (if truthy start_date \<or> truthy end_date then Some (start_date, end_date) else None)
      in (refresh_dump env server dates, w\<lparr>calls := calls w @ [DumpRefresh server dates]\<rparr>))"

text \<open>One iteration of \<^verbatim>\<open>for server in servers\<close> of \<^verbatim>\<open>update_preprint_dumps\<close>.\<close>

definition update_step :: "env \<Rightarrow> pyval \<Rightarrow> pyval \<Rightarrow> pyval \<Rightarrow> string \<Rightarrow> world \<Rightarrow> string \<times> world" where
  "update_step env start_date end_date server response w =
     (let response = response @ ''Updating '' @ py_str (repr env) server @ ''... '';
          (r, w1) =
            (if server = PStr ''biorxiv'' then call_refresh env ''biorxiv'' start_date end_date w
             else if server = PStr ''medrxiv'' then call_refresh env ''medrxiv'' start_date end_date w
             else if server = PStr ''chemrxiv'' then call_refresh env ''chemrxiv'' start_date end_date w
             else (None, w))
      in (case r of
            None \<Rightarrow> (response @ check_mark @ '' Complete\<newline>'', w1)
          | Some e \<Rightarrow> (response @ ballot_x @ '' Error: '' @ exn_msg e @ ''\<newline>'', w1)))"

fun update_loop :: "env \<Rightarrow> pyval \<Rightarrow> pyval \<Rightarrow> pyval list \<Rightarrow> string \<Rightarrow> world \<Rightarrow> string \<times> world" where
  "update_loop env start_date end_date [] response w = (response, w)"
| "update_loop env start_date end_date (server # rest) response w =
     (case update_step env start_date end_date server response w of
        (response', w') \<Rightarrow> update_loop env start_date end_date rest response' w')"

definition update_preprint_dumps :: "env \<Rightarrow> pydict \<Rightarrow> world \<Rightarrow> handler_result" where
  "update_preprint_dumps env arguments w =
     (let start_date = dict_get arguments ''start_date'' PNone;
          end_date = dict_get arguments ''end_date'' PNone
      in (case py_iter (dict_get arguments ''servers'' default_servers) of
            Inl e \<Rightarrow> (Inl e, w)
          | Inr servers \<Rightarrow>
              (case update_loop env start_date end_date servers ''Updating preprint server dumps...\<newline>\<newline>'' w of
                 (response, w') \<Rightarrow>
                   (Inr [TextContent ''text''
                           (response @ ''\<newline>Dump update process finished. Please restart to use updated dumps.'')],
                    w'))))"

section \<open>The tool catalog and the dispatcher\<close>

datatype Tool = Tool (tool_name: string) (description: string) (inputSchema: pyval)

definition handle_list_tools :: "Tool list" where
  "handle_list_tools =
    [Tool ''search_pubmed''
        ''Search for papers in PubMed database using keyword queries''
        (PDict
           [(''type'', PStr ''object''),
            (''properties'', PDict
             [(''query'', PDict
               [(''type'', PStr ''array''),
                (''description'', PStr ''List of keyword groups for AND/OR search. Each group contains synonyms (OR), groups are combined with AND''),
                (''items'', PDict
                 [(''type'', PStr ''array''),
                  (''items'', PDict [(''type'', PStr ''string'')])])]),
              (''max_results'', PDict
               [(''type'', PStr ''integer''),
                (''description'', PStr ''Maximum number of results to return''),
                (''default'', PInt 100)])]),
            (''required'', PList [PStr ''query''])]),
     Tool ''search_arxiv''
        ''Search for papers in arXiv database using keyword queries''
        (PDict
           [(''type'', PStr ''object''),
            (''properties'', PDict
             [(''query'', PDict
               [(''type'', PStr ''array''),
                (''description'', PStr ''List of keyword groups for AND/OR search. Each group contains synonyms (OR), groups are combined with AND''),
                (''items'', PDict
                 [(''type'', PStr ''array''),
                  (''items'', PDict [(''type'', PStr ''string'')])])]),
              (''max_results'', PDict
               [(''type'', PStr ''integer''),
                (''description'', PStr ''Maximum number of results to return''),
                (''default'', PInt 100)])]),
            (''required'', PList [PStr ''query''])]),
     Tool ''search_scholar''
        ''Search for papers in Google Scholar using a topic query''
        (PDict
           [(''type'', PStr ''object''),
            (''properties'', PDict
             [(''topic'', PDict
               [(''type'', PStr ''string''),
                (''description'', PStr ''Topic to search for (like Google Scholar search)'')]),
              (''max_results'', PDict
               [(''type'', PStr ''integer''),
                (''description'', PStr ''Maximum number of results to return''),
                (''default'', PInt 50)])]),
            (''required'', PList [PStr ''topic''])]),
     Tool ''search_preprint_servers''
        ''Search bioRxiv, medRxiv, and chemRxiv preprint servers''
        (PDict
           [(''type'', PStr ''object''),
            (''properties'', PDict
             [(''query'', PDict
               [(''type'', PStr ''array''),
                (''description'', PStr ''List of keyword groups for AND/OR search''),
                (''items'', PDict
                 [(''type'', PStr ''array''),
                  (''items'', PDict [(''type'', PStr ''string'')])])]),
              (''servers'', PDict
               [(''type'', PStr ''array''),
                (''description'', PStr ''Which preprint servers to search''),
                (''items'', PDict
                 [(''type'', PStr ''string''),
                  (''enum'', PList [PStr ''biorxiv'', PStr ''medrxiv'', PStr ''chemrxiv''])]),
                (''default'', PList [PStr ''biorxiv'', PStr ''medrxiv'', PStr ''chemrxiv''])])]),
            (''required'', PList [PStr ''query''])]),
     Tool ''get_citations''
        ''Get citation count for a paper by title or DOI''
        (PDict
           [(''type'', PStr ''object''),
            (''properties'', PDict
             [(''title'', PDict
               [(''type'', PStr ''string''),
                (''description'', PStr ''Paper title to search for citations'')]),
              (''doi'', PDict
               [(''type'', PStr ''string''),
                (''description'', PStr ''DOI of the paper'')])]),
            (''required'', PList [])]),
     Tool ''search_journal_impact''
        ''Search for journal impact factors''
        (PDict
           [(''type'', PStr ''object''),
            (''properties'', PDict
             [(''journal_name'', PDict
               [(''type'', PStr ''string''),
                (''description'', PStr ''Journal name to search for'')]),
              (''threshold'', PDict
               [(''type'', PStr ''integer''),
                (''description'', PStr ''Fuzzy search threshold (100 = exact match)''),
                (''default'', PInt 85)]),
              (''min_impact'', PDict
               [(''type'', PStr ''number''),
                (''description'', PStr ''Minimum impact factor''),
                (''default'', PInt 0)]),
              (''max_impact'', PDict
               [(''type'', PStr ''number''),
                (''description'', PStr ''Maximum impact factor'')])]),
            (''required'', PList [PStr ''journal_name''])]),
     Tool ''download_paper_pdf''
        ''Download PDF of a paper using its DOI''
        (PDict
           [(''type'', PStr ''object''),
            (''properties'', PDict
             [(''doi'', PDict
               [(''type'', PStr ''string''),
                (''description'', PStr ''DOI of the paper to download'')]),
              (''filename'', PDict
               [(''type'', PStr ''string''),
                (''description'', PStr ''Optional filename for the PDF'')])]),
            (''required'', PList [PStr ''doi''])]),
     Tool ''update_preprint_dumps''
        ''Update local dumps of preprint servers (biorxiv, medrxiv, chemrxiv)''
        (PDict
           [(''type'', PStr ''object''),
            (''properties'', PDict
             [(''servers'', PDict
               [(''type'', PStr ''array''),
                (''description'', PStr ''Which servers to update''),
                (''items'', PDict
                 [(''type'', PStr ''string''),
                  (''enum'', PList [PStr ''biorxiv'', PStr ''medrxiv'', PStr ''chemrxiv''])]),
                (''default'', PList [PStr ''biorxiv'', PStr ''medrxiv'', PStr ''chemrxiv''])]),
              (''start_date'', PDict
               [(''type'', PStr ''string''),
                (''description'', PStr ''Start date for selective update (YYYY-MM-DD)'')]),
              (''end_date'', PDict
               [(''type'', PStr ''string''),
                (''description'', PStr ''End date for selective update (YYYY-MM-DD)'')])])])]"

text \<open>The \<^verbatim>\<open>if\<close>/\<^verbatim>\<open>elif\<close> chain inside the \<^verbatim>\<open>try\<close> of \<^verbatim>\<open>handle_call_tool\<close>.\<close>

definition handle_call_tool_try :: "env \<Rightarrow> string \<Rightarrow> pydict \<Rightarrow> world \<Rightarrow> handler_result" where
  "handle_call_tool_try env name arguments w =
     (if name = ''search_pubmed'' then search_pubmed env arguments w
      else if name = ''search_arxiv'' then search_arxiv env arguments w
      else if name = ''search_scholar'' then search_scholar env arguments w
      else if name = ''search_preprint_servers'' then search_preprint_servers env arguments w
      else if name = ''get_citations'' then get_citations env arguments w
      else if name = ''search_journal_impact'' then search_journal_impact env arguments w
      else if name = ''download_paper_pdf'' then download_paper_pdf env arguments w
      else if name = ''update_preprint_dumps'' then update_preprint_dumps env arguments w
      else (Inl (ValueError (''Unknown tool: '' @ name)), w))"

text \<open>
  \<^verbatim>\<open>except Exception as e: return [TextContent(type="text", text=f"Error: {str(e)}")]\<close>.
  (The line the handler writes to its logger goes to the diagnostic stream and is not
  part of the result.)
\<close>

definition handle_call_tool :: "env \<Rightarrow> string \<Rightarrow> pydict \<Rightarrow> world \<Rightarrow> TextContent list \<times> world" where
  "handle_call_tool env name arguments w =
     (case handle_call_tool_try env name arguments w of
        (Inl e, w') \<Rightarrow> ([TextContent ''text'' (''Error: '' @ exn_msg e)], w')
      | (Inr result, w') \<Rightarrow> (result, w'))"

section \<open>Closed forms used in the statements\<close>

text \<open>
  What the \<^verbatim>\<open>try\<close> block of a search handler reads back from the temporary file
  \<^verbatim>\<open>n\<close> after a collaborator with the given outcome ran: the collaborator's exception,
  \<^verbatim>\<open>FileNotFoundError\<close> when the collaborator removed the file, the records otherwise.
\<close>

definition read_back :: "dump_outcome \<Rightarrow> nat \<Rightarrow> exn + paper list" where
  "read_back out n =
     (case raised out of
        Some e \<Rightarrow> Inl e
      | None \<Rightarrow>
          (case file_after out of
             None \<Rightarrow> Inl (FileNotFoundError (''[Errno 2] No such file or directory: '' @ [CHR 0x27] @ jsonl_path n @ [CHR 0x27]))
           | Some ps \<Rightarrow> Inr ps))"

text \<open>The numbered entries of a list of records: entry \<open>i\<close> (from 0) is rendered with number \<open>i + 1\<close>.\<close>

definition entries :: "(nat \<Rightarrow> paper \<Rightarrow> string) \<Rightarrow> paper list \<Rightarrow> string list" where
  "entries entry papers = map (\<lambda>(i, paper). entry i paper) (enumerate 0 papers)"

text \<open>The line \<^verbatim>\<open>... and {n - k} more results\<close>, present when \<open>n > k\<close>.\<close>

definition more_results :: "nat \<Rightarrow> nat \<Rightarrow> string" where
  "more_results n k =
     (if n > k then ''... and '' @ str_nat (n - k) @ '' more results\<newline>'' else [])"

text \<open>The requested servers that are keys of \<^verbatim>\<open>QUERY_FN_DICT\<close>, in the order requested.\<close>

fun active_servers :: "env \<Rightarrow> pyval list \<Rightarrow> string list" where
  "active_servers env [] = []"
| "active_servers env (PStr s # rest) =
     (if map_of (QUERY_FN_DICT env) s \<noteq> None then s # active_servers env rest
      else active_servers env rest)"
| "active_servers env (v # rest) = active_servers env rest"

text \<open>The outcome of querying a server of the index, and the records it leaves.\<close>

definition server_outcome :: "env \<Rightarrow> pyval \<Rightarrow> string \<Rightarrow> dump_outcome" where
  "server_outcome env query s =
     (case map_of (QUERY_FN_DICT env) s of
        Some fn \<Rightarrow> snd (fn query)
      | None \<Rightarrow> DumpOutcome None None)"

definition server_call :: "env \<Rightarrow> pyval \<Rightarrow> string \<Rightarrow> string \<Rightarrow> call" where
  "server_call env query path s =
     (case map_of (QUERY_FN_DICT env) s of
        Some fn \<Rightarrow> fst (fn query) path
      | None \<Rightarrow> XrxivCall s query path)"

definition server_results :: "env \<Rightarrow> pyval \<Rightarrow> string \<Rightarrow> paper list" where
  "server_results env query s =
     (case file_after (server_outcome env query s) of Some ps \<Rightarrow> ps | None \<Rightarrow> [])"

text \<open>The section of one server: its header line, then the entries of its first five records.\<close>

definition server_section :: "env \<Rightarrow> string \<Rightarrow> paper list \<Rightarrow> string" where
  "server_section env s results =
     ''\<newline>'' @ py_upper s @ '': Found '' @ str_nat (length results) @ '' papers\<newline>''
     @ concat (entries (preprint_entry env) (take 5 results))"

section \<open>A sample environment\<close>

definition sample_paper :: "nat \<Rightarrow> paper" where
  "sample_paper i = [''title'' \<mapsto> PStr (''Paper '' @ str_nat i), ''doi'' \<mapsto> PStr ''10.1000/x'']"

definition sample_papers :: "nat \<Rightarrow> paper list" where
  "sample_papers n = map sample_paper [0..<n]"

definition sample_env :: env where
  "sample_env =
     \<lparr>get_and_dump_pubmed_papers = (\<lambda>q m. DumpOutcome None (Some (sample_papers 12))),
      get_and_dump_arxiv_papers = (\<lambda>q m. DumpOutcome None (Some (sample_papers 2))),
      get_and_dump_scholar_papers = (\<lambda>t. DumpOutcome None (Some (sample_papers 11))),
      search_keywords = (\<lambda>db q. DumpOutcome None (Some (sample_papers 6))),
      dump_loaded = (\<lambda>db. db = ''biorxiv''),
      get_citations_by_doi = (\<lambda>d. Inr (PInt 7)),
      get_citations_from_title = (\<lambda>t. Inl (OtherError ''ConnectionError'' ''no network'')),
      Impactor = None,
      impactor_search = (\<lambda>j kw. Inr []),
      save_pdf = (\<lambda>d p. (Inr PNone, None)),
      refresh_dump = (\<lambda>s d. if s = ''medrxiv'' then Some (OtherError ''HTTPError'' ''503'') else None),
      repr = (\<lambda>v. ''<object>'')\<rparr>"

definition empty_world :: world where
  "empty_world = \<lparr>tmp_files = [], tmp_dirs = [], files = [], calls = []\<rparr>"

text \<open>An environment whose \<^verbatim>\<open>save_pdf\<close> writes a file of 1000 bytes and returns \<^verbatim>\<open>True\<close>.\<close>

definition pdf_env :: env where
  "pdf_env = sample_env\<lparr>save_pdf := (\<lambda>d p. (Inr (PBool True), Some 1000))\<rparr>"

section \<open>The tool catalog\<close>

text \<open>
  C8. The tool listing returns exactly eight descriptors, named, in this order,
  search_pubmed, search_arxiv, search_scholar, search_preprint_servers, get_citations,
  search_journal_impact, download_paper_pdf, update_preprint_dumps.
\<close>

theorem handle_list_tools_names:
  "length handle_list_tools = 8 \<and>
   map tool_name handle_list_tools =
     [''search_pubmed'', ''search_arxiv'', ''search_scholar'', ''search_preprint_servers'',
      ''get_citations'', ''search_journal_impact'', ''download_paper_pdf'', ''update_preprint_dumps'']"
  by (simp add: handle_list_tools_def)

section \<open>Temporary files: fresh names, staging and clean-up\<close>

lemma fold_max_ge: "(a::nat) \<le> fold max xs a \<and> (\<forall>x \<in> set xs. x \<le> fold max xs a)"
proof (induction xs arbitrary: a)
  case Nil
  show ?case by simp
next
  case (Cons y ys)
  have "max y a \<le> fold max ys (max y a)" using Cons.IH by blast
  moreover have "\<forall>x \<in> set ys. x \<le> fold max ys (max y a)" using Cons.IH by blast
  ultimately show ?case by auto
qed

lemma fresh_id_files: "fresh_id w \<notin> fst ` set (tmp_files w)"
proof
  assume "fresh_id w \<in> fst ` set (tmp_files w)"
  then have "fresh_id w \<in> set (map fst (tmp_files w) @ tmp_dirs w)" by auto
  then have "fresh_id w \<le> fold max (map fst (tmp_files w) @ tmp_dirs w) 0"
    using fold_max_ge by blast
  then show False by (simp add: fresh_id_def)
qed

lemma fresh_id_dirs: "fresh_id w \<notin> set (tmp_dirs w)"
proof
  assume "fresh_id w \<in> set (tmp_dirs w)"
  then have "fresh_id w \<in> set (map fst (tmp_files w) @ tmp_dirs w)" by auto
  then have "fresh_id w \<le> fold max (map fst (tmp_files w) @ tmp_dirs w) 0"
    using fold_max_ge by blast
  then show False by (simp add: fresh_id_def)
qed

lemma filter_fresh_files: "n \<notin> fst ` set xs \<Longrightarrow> filter (\<lambda>kv. fst kv \<noteq> n) xs = xs"
  by (induction xs) auto

lemma filter_fresh_dirs: "n \<notin> set xs \<Longrightarrow> filter (\<lambda>d. d \<noteq> n) xs = xs"
  by (induction xs) auto

lemma map_of_fresh: "map_of (tmp_files w) (fresh_id w) = None"
  by (simp add: map_of_eq_None_iff fresh_id_files)

lemma staged_result:
  "fst (dump_then_load c out (fresh_id w) (snd (NamedTemporaryFile w))) = read_back out (fresh_id w)"
  by (cases out)
     (auto simp: dump_then_load_def NamedTemporaryFile_def Let_def read_back_def dump_effect_def
        load_jsonl_def unlink_def fresh_id_files filter_fresh_files map_of_fresh
        split: option.splits)

lemma staged_world:
  "finally_unlink (fresh_id w) (snd (dump_then_load c out (fresh_id w) (snd (NamedTemporaryFile w))))
     = w\<lparr>calls := calls w @ [c]\<rparr>"
  by (cases out)
     (auto simp: dump_then_load_def NamedTemporaryFile_def Let_def finally_unlink_def path_exists_def
        dump_effect_def unlink_def fresh_id_files filter_fresh_files map_of_fresh
        split: option.splits)

lemma NamedTemporaryFile_fst: "fst (NamedTemporaryFile w) = fresh_id w"
  by (simp add: NamedTemporaryFile_def Let_def)


lemma fresh_id_calls: "fresh_id (w\<lparr>calls := c\<rparr>) = fresh_id w"
  by (simp add: fresh_id_def)

lemma enumerate_loop_concat:
  "enumerate_loop entry i papers response
     = response @ concat (map (\<lambda>(j, paper). entry j paper) (enumerate i papers))"
  by (induction papers arbitrary: i response) simp_all

lemma render_pubmed_closed:
  "render_pubmed env results =
     ''Found '' @ str_nat (length results) @ '' papers in PubMed\<newline>\<newline>''
     @ concat (entries (pubmed_entry env) (take 10 results)) @ more_results (length results) 10"
  by (simp add: render_pubmed_def Let_def enumerate_loop_concat entries_def more_results_def)

lemma render_arxiv_closed:
  "render_arxiv env results =
     ''Found '' @ str_nat (length results) @ '' papers in arXiv\<newline>\<newline>''
     @ concat (entries (arxiv_entry env) (take 10 results)) @ more_results (length results) 10"
  by (simp add: render_arxiv_def Let_def enumerate_loop_concat entries_def more_results_def)

lemma render_scholar_closed:
  "render_scholar env results =
     ''Found '' @ str_nat (length results) @ '' papers in Google Scholar\<newline>\<newline>''
     @ concat (entries (scholar_entry env) (take 10 results)) @ more_results (length results) 10"
  by (simp add: render_scholar_def Let_def enumerate_loop_concat entries_def more_results_def)

lemma preprint_section_closed:
  "preprint_section env s results response = response @ server_section env s results"
  by (simp add: preprint_section_def server_section_def Let_def enumerate_loop_concat entries_def)

lemma search_pubmed_eq:
  "search_pubmed env arguments w =
     (case arguments ''query'' of
        None \<Rightarrow> (Inl (KeyError ''query''), w)
      | Some query \<Rightarrow>
          (case read_back (get_and_dump_pubmed_papers env query
                             (Some (dict_get arguments ''max_results'' (PInt 100)))) (fresh_id w) of
             Inl e \<Rightarrow> Inl e
           | Inr results \<Rightarrow> Inr [TextContent ''text'' (render_pubmed env results)],
           w\<lparr>calls := calls w @ [PubmedCall query (jsonl_path (fresh_id w))
                                    (Some (dict_get arguments ''max_results'' (PInt 100)))]\<rparr>))"
  by (simp add: search_pubmed_def dict_index_def Let_def split_beta NamedTemporaryFile_fst
        staged_result staged_world split: option.splits sum.splits)

lemma search_arxiv_eq:
  "search_arxiv env arguments w =
     (case arguments ''query'' of
        None \<Rightarrow> (Inl (KeyError ''query''), w)
      | Some query \<Rightarrow>
          (case read_back (get_and_dump_arxiv_papers env query
                             (Some (dict_get arguments ''max_results'' (PInt 100)))) (fresh_id w) of
             Inl e \<Rightarrow> Inl e
           | Inr results \<Rightarrow> Inr [TextContent ''text'' (render_arxiv env results)],
           w\<lparr>calls := calls w @ [ArxivCall query (jsonl_path (fresh_id w))
                                    (Some (dict_get arguments ''max_results'' (PInt 100)))]\<rparr>))"
  by (simp add: search_arxiv_def dict_index_def Let_def split_beta NamedTemporaryFile_fst
        staged_result staged_world split: option.splits sum.splits)

lemma search_scholar_eq:
  "search_scholar env arguments w =
     (case arguments ''topic'' of
        None \<Rightarrow> (Inl (KeyError ''topic''), w)
      | Some topic \<Rightarrow>
          (case read_back (get_and_dump_scholar_papers env topic) (fresh_id w) of
             Inl e \<Rightarrow> Inl e
           | Inr results \<Rightarrow> Inr [TextContent ''text'' (render_scholar env results)],
           w\<lparr>calls := calls w @ [ScholarCall topic (jsonl_path (fresh_id w))]\<rparr>))"
  by (simp add: search_scholar_def dict_index_def Let_def split_beta NamedTemporaryFile_fst
        staged_result staged_world split: option.splits sum.splits)

lemma preprint_step_eq:
  "preprint_step env query server st w =
     (case lookup_query_fn env server of
        Inl e \<Rightarrow> (Inl e, w)
      | Inr None \<Rightarrow> (Inr st, w)
      | Inr (Some (s, fn)) \<Rightarrow>
          (case read_back (snd (fn query)) (fresh_id w) of
             Inl e \<Rightarrow> Inl e
           | Inr results \<Rightarrow> Inr (fst st @ results, snd st @ server_section env s results),
           w\<lparr>calls := calls w @ [fst (fn query) (jsonl_path (fresh_id w))]\<rparr>))"
  by (simp add: preprint_step_def Let_def split_beta NamedTemporaryFile_fst
        staged_result staged_world preprint_section_closed split: option.splits sum.splits)

lemma lookup_none:
  "lookup_query_fn env server = Inr None \<Longrightarrow> active_servers env (server # rest) = active_servers env rest"
  by (cases server) (auto simp: lookup_query_fn_def split: if_splits)

lemma lookup_some:
  "lookup_query_fn env server = Inr (Some (s, fn)) \<Longrightarrow>
     server = PStr s \<and> map_of (QUERY_FN_DICT env) s = Some fn"
  by (cases server) (auto simp: lookup_query_fn_def split: if_splits)


lemma read_back_Inr:
  "read_back out n = Inr rs \<Longrightarrow> raised out = None \<and> file_after out = Some rs"
  by (auto simp: read_back_def split: option.splits)

lemma preprint_loop_closed:
  "preprint_loop env query servers st w = (Inr st', w') \<Longrightarrow>
     fst st' = fst st @ concat (map (server_results env query) (active_servers env servers)) \<and>
     snd st' = snd st @ concat (map (\<lambda>s. server_section env s (server_results env query s))
                                   (active_servers env servers)) \<and>
     w' = w\<lparr>calls := calls w @ map (server_call env query (jsonl_path (fresh_id w)))
                                  (active_servers env servers)\<rparr>"
proof (induction servers arbitrary: st w)
  case Nil
  then show ?case by simp
next
  case (Cons server rest)
  show ?case
  proof (cases "lookup_query_fn env server")
    case (Inl e)
    with Cons.prems show ?thesis by (simp add: preprint_step_eq)
  next
    case (Inr found)
    show ?thesis
    proof (cases found)
      case None
      with Inr Cons.prems have "preprint_loop env query rest st w = (Inr st', w')"
        by (simp add: preprint_step_eq)
      from Cons.IH[OF this] lookup_none[of env server rest] Inr None show ?thesis by simp
    next
      case (Some sf)
      obtain s fn where sf: "sf = (s, fn)" by (cases sf)
      from Inr Some sf have look: "lookup_query_fn env server = Inr (Some (s, fn))" by simp
      from lookup_some[OF look] have srv: "server = PStr s" and fn: "map_of (QUERY_FN_DICT env) s = Some fn"
        by simp_all
      let ?w1 = "w\<lparr>calls := calls w @ [fst (fn query) (jsonl_path (fresh_id w))]\<rparr>"
      show ?thesis
      proof (cases "read_back (snd (fn query)) (fresh_id w)")
        case (Inl e)
        with look Cons.prems show ?thesis by (simp add: preprint_step_eq)
      next
        case (Inr results)
        from read_back_Inr[OF Inr] fn have res: "server_results env query s = results"
          by (simp add: server_results_def server_outcome_def)
        from look Inr Cons.prems
        have "preprint_loop env query rest (fst st @ results, snd st @ server_section env s results) ?w1
                = (Inr st', w')"
          by (simp add: preprint_step_eq)
        from Cons.IH[OF this] srv fn res show ?thesis
          by (simp add: fresh_id_calls server_call_def)
      qed
    qed
  qed
qed

lemma preprint_loop_world:
  "\<exists>k. snd (preprint_loop env query servers st w)
         = w\<lparr>calls := calls w @ map (server_call env query (jsonl_path (fresh_id w)))
                                    (take k (active_servers env servers))\<rparr>"
proof (induction servers arbitrary: st w)
  case Nil
  then show ?case by simp
next
  case (Cons server rest)
  show ?case
  proof (cases "lookup_query_fn env server")
    case (Inl e)
    then have "snd (preprint_loop env query (server # rest) st w)
                 = w\<lparr>calls := calls w @ map (server_call env query (jsonl_path (fresh_id w)))
                                            (take 0 (active_servers env (server # rest)))\<rparr>"
      by (simp add: preprint_step_eq)
    then show ?thesis by blast
  next
    case (Inr found)
    show ?thesis
    proof (cases found)
      case None
      with Inr have "preprint_loop env query (server # rest) st w = preprint_loop env query rest st w"
        by (simp add: preprint_step_eq)
      with Cons.IH[of st w] lookup_none[of env server rest] Inr None show ?thesis by simp
    next
      case (Some sf)
      obtain s fn where sf: "sf = (s, fn)" by (cases sf)
      from Inr Some sf have look: "lookup_query_fn env server = Inr (Some (s, fn))" by simp
      from lookup_some[OF look] have srv: "server = PStr s" and fn: "map_of (QUERY_FN_DICT env) s = Some fn"
        by simp_all
      let ?p = "jsonl_path (fresh_id w)"
      let ?w1 = "w\<lparr>calls := calls w @ [fst (fn query) ?p]\<rparr>"
      from srv fn have act: "active_servers env (server # rest) = s # active_servers env rest" by simp
      from fn have call: "server_call env query ?p s = fst (fn query) ?p" by (simp add: server_call_def)
      show ?thesis
      proof (cases "read_back (snd (fn query)) (fresh_id w)")
        case (Inl e)
        with look have "snd (preprint_loop env query (server # rest) st w)
                 = w\<lparr>calls := calls w @ map (server_call env query ?p)
                                            (take 1 (active_servers env (server # rest)))\<rparr>"
          by (simp add: preprint_step_eq act call)
        then show ?thesis by blast
      next
        case (Inr results)
        let ?st1 = "(fst st @ results, snd st @ server_section env s results)"
        from look Inr have step: "preprint_loop env query (server # rest) st w
                = preprint_loop env query rest ?st1 ?w1"
          by (simp add: preprint_step_eq)
        from Cons.IH[of ?st1 ?w1] obtain k where
          "snd (preprint_loop env query rest ?st1 ?w1)
             = ?w1\<lparr>calls := calls ?w1 @ map (server_call env query (jsonl_path (fresh_id ?w1)))
                                            (take k (active_servers env rest))\<rparr>" by blast
        with step have "snd (preprint_loop env query (server # rest) st w)
                 = w\<lparr>calls := calls w @ map (server_call env query ?p)
                                            (take (Suc k) (active_servers env (server # rest)))\<rparr>"
          by (simp add: act call fresh_id_calls)
        then show ?thesis by blast
      qed
    qed
  qed
qed


subsection \<open>Every handler leaves the temporary state as it found it\<close>

lemma search_pubmed_tmp:
  "tmp_files (snd (search_pubmed env arguments w)) = tmp_files w \<and>
   tmp_dirs (snd (search_pubmed env arguments w)) = tmp_dirs w"
  by (simp add: search_pubmed_eq split: option.splits)

lemma search_arxiv_tmp:
  "tmp_files (snd (search_arxiv env arguments w)) = tmp_files w \<and>
   tmp_dirs (snd (search_arxiv env arguments w)) = tmp_dirs w"
  by (simp add: search_arxiv_eq split: option.splits)

lemma search_scholar_tmp:
  "tmp_files (snd (search_scholar env arguments w)) = tmp_files w \<and>
   tmp_dirs (snd (search_scholar env arguments w)) = tmp_dirs w"
  by (simp add: search_scholar_eq split: option.splits)

lemma preprint_loop_tmp:
  "tmp_files (snd (preprint_loop env query servers st w)) = tmp_files w \<and>
   tmp_dirs (snd (preprint_loop env query servers st w)) = tmp_dirs w"
proof -
  obtain k where "snd (preprint_loop env query servers st w)
         = w\<lparr>calls := calls w @ map (server_call env query (jsonl_path (fresh_id w)))
                                    (take k (active_servers env servers))\<rparr>"
    using preprint_loop_world by blast
  then show ?thesis by simp
qed

lemma search_preprint_servers_tmp:
  "tmp_files (snd (search_preprint_servers env arguments w)) = tmp_files w \<and>
   tmp_dirs (snd (search_preprint_servers env arguments w)) = tmp_dirs w"
proof (cases "dict_index arguments ''query''")
  case (Inl e)
  then show ?thesis by (simp add: search_preprint_servers_def)
next
  case q: (Inr query)
  show ?thesis
  proof (cases "py_iter (dict_get arguments ''servers'' default_servers)")
    case (Inl e)
    with q show ?thesis by (simp add: search_preprint_servers_def)
  next
    case (Inr servers)
    obtain r w' where l: "preprint_loop env query servers ([], []) w = (r, w')"
      by (cases "preprint_loop env query servers ([], []) w")
    with preprint_loop_tmp[of env query servers "([], [])" w]
    have "tmp_files w' = tmp_files w \<and> tmp_dirs w' = tmp_dirs w" by simp
    with q Inr l show ?thesis
      by (cases r) (auto simp: search_preprint_servers_def split: prod.splits)
  qed
qed

lemma get_citations_tmp:
  "tmp_files (snd (get_citations env arguments w)) = tmp_files w \<and>
   tmp_dirs (snd (get_citations env arguments w)) = tmp_dirs w"
  by (simp add: get_citations_def Let_def split: sum.splits)

lemma search_journal_impact_try_tmp:
  "tmp_files (snd (search_journal_impact_try env j arguments w)) = tmp_files w \<and>
   tmp_dirs (snd (search_journal_impact_try env j arguments w)) = tmp_dirs w"
  by (simp add: search_journal_impact_try_def Let_def split: option.splits sum.splits)

lemma search_journal_impact_tmp:
  "tmp_files (snd (search_journal_impact env arguments w)) = tmp_files w \<and>
   tmp_dirs (snd (search_journal_impact env arguments w)) = tmp_dirs w"
proof (cases "dict_index arguments ''journal_name''")
  case (Inl e)
  then show ?thesis by (simp add: search_journal_impact_def)
next
  case (Inr j)
  obtain r w' where t: "search_journal_impact_try env j arguments w = (r, w')"
    by (cases "search_journal_impact_try env j arguments w")
  with search_journal_impact_try_tmp[of env j arguments w]
  have "tmp_files w' = tmp_files w \<and> tmp_dirs w' = tmp_dirs w" by simp
  with Inr t show ?thesis by (cases r) (simp_all add: search_journal_impact_def)
qed

lemma download_body_tmp:
  "tmp_files (snd (download_body env doi filename d w)) = tmp_files w \<and>
   tmp_dirs (snd (download_body env doi filename d w)) = tmp_dirs w"
  by (simp add: download_body_def write_file_def Let_def split: sum.splits prod.splits option.splits)

lemma download_paper_pdf_tmp:
  "tmp_files (snd (download_paper_pdf env arguments w)) = tmp_files w \<and>
   tmp_dirs (snd (download_paper_pdf env arguments w)) = tmp_dirs w"
proof (cases "dict_index arguments ''doi''")
  case (Inl e)
  then show ?thesis by (simp add: download_paper_pdf_def)
next
  case (Inr v)
  show ?thesis
  proof (cases v)
    case (PStr doi)
    let ?filename = "dict_get arguments ''filename'' (PStr (replace_slash doi @ ''.pdf''))"
    let ?w1 = "w\<lparr>tmp_dirs := fresh_id w # tmp_dirs w\<rparr>"
    obtain r w2 where b: "download_body env doi ?filename (fresh_id w) ?w1 = (r, w2)"
      by (cases "download_body env doi ?filename (fresh_id w) ?w1")
    with download_body_tmp[of env doi ?filename "fresh_id w" ?w1]
    have "tmp_files w2 = tmp_files w \<and> tmp_dirs w2 = fresh_id w # tmp_dirs w" by simp
    then have "tmp_files (cleanup_dir (fresh_id w) w2) = tmp_files w \<and>
               tmp_dirs (cleanup_dir (fresh_id w) w2) = tmp_dirs w"
      by (simp add: cleanup_dir_def fresh_id_dirs filter_fresh_dirs)
    with Inr PStr b show ?thesis
      by (cases r) (simp_all add: download_paper_pdf_def TemporaryDirectory_def Let_def)
  qed (use Inr in \<open>simp_all add: download_paper_pdf_def\<close>)
qed

lemma update_step_tmp:
  "tmp_files (snd (update_step env sd ed server response w)) = tmp_files w \<and>
   tmp_dirs (snd (update_step env sd ed server response w)) = tmp_dirs w"
  by (simp add: update_step_def call_refresh_def Let_def split: option.splits)

lemma update_loop_tmp:
  "tmp_files (snd (update_loop env sd ed servers response w)) = tmp_files w \<and>
   tmp_dirs (snd (update_loop env sd ed servers response w)) = tmp_dirs w"
proof (induction servers arbitrary: response w)
  case Nil
  show ?case by simp
next
  case (Cons server rest)
  obtain r' w' where st: "update_step env sd ed server response w = (r', w')"
    by (cases "update_step env sd ed server response w")
  with update_step_tmp[of env sd ed server response w]
  have "tmp_files w' = tmp_files w \<and> tmp_dirs w' = tmp_dirs w" by simp
  with Cons.IH[of r' w'] st show ?case by simp
qed

lemma update_preprint_dumps_tmp:
  "tmp_files (snd (update_preprint_dumps env arguments w)) = tmp_files w \<and>
   tmp_dirs (snd (update_preprint_dumps env arguments w)) = tmp_dirs w"
proof (cases "py_iter (dict_get arguments ''servers'' default_servers)")
  case (Inl e)
  then show ?thesis by (simp add: update_preprint_dumps_def Let_def)
next
  case (Inr servers)
  let ?sd = "dict_get arguments ''start_date'' PNone"
  let ?ed = "dict_get arguments ''end_date'' PNone"
  let ?hdr = "''Updating preprint server dumps...\<newline>\<newline>''"
  obtain r w' where l: "update_loop env ?sd ?ed servers ?hdr w = (r, w')"
    by (cases "update_loop env ?sd ?ed servers ?hdr w")
  with update_loop_tmp[of env ?sd ?ed servers ?hdr w]
  have "tmp_files w' = tmp_files w \<and> tmp_dirs w' = tmp_dirs w" by simp
  with Inr l show ?thesis by (simp add: update_preprint_dumps_def Let_def)
qed

section \<open>The dispatcher always answers\<close>

lemma search_pubmed_shape:
  "(\<exists>e. fst (search_pubmed env arguments w) = Inl e) \<or>
   (\<exists>t. fst (search_pubmed env arguments w) = Inr [TextContent ''text'' t])"
  by (simp add: search_pubmed_eq split: option.splits sum.splits)

lemma search_arxiv_shape:
  "(\<exists>e. fst (search_arxiv env arguments w) = Inl e) \<or>
   (\<exists>t. fst (search_arxiv env arguments w) = Inr [TextContent ''text'' t])"
  by (simp add: search_arxiv_eq split: option.splits sum.splits)

lemma search_scholar_shape:
  "(\<exists>e. fst (search_scholar env arguments w) = Inl e) \<or>
   (\<exists>t. fst (search_scholar env arguments w) = Inr [TextContent ''text'' t])"
  by (simp add: search_scholar_eq split: option.splits sum.splits)

lemma search_preprint_servers_shape:
  "(\<exists>e. fst (search_preprint_servers env arguments w) = Inl e) \<or>
   (\<exists>t. fst (search_preprint_servers env arguments w) = Inr [TextContent ''text'' t])"
  by (simp add: search_preprint_servers_def split: sum.splits prod.splits)

lemma get_citations_shape:
  "\<exists>t. fst (get_citations env arguments w) = Inr [TextContent ''text'' t]"
  by (simp add: get_citations_def Let_def split: sum.splits)

lemma search_journal_impact_shape:
  "(\<exists>e. fst (search_journal_impact env arguments w) = Inl e) \<or>
   (\<exists>t. fst (search_journal_impact env arguments w) = Inr [TextContent ''text'' t])"
  by (simp add: search_journal_impact_def split: sum.splits prod.splits)

lemma download_paper_pdf_shape:
  "(\<exists>e. fst (download_paper_pdf env arguments w) = Inl e) \<or>
   (\<exists>t. fst (download_paper_pdf env arguments w) = Inr [TextContent ''text'' t])"
  by (simp add: download_paper_pdf_def Let_def split_beta split: sum.splits pyval.splits)

lemma update_preprint_dumps_shape:
  "(\<exists>e. fst (update_preprint_dumps env arguments w) = Inl e) \<or>
   (\<exists>t. fst (update_preprint_dumps env arguments w) = Inr [TextContent ''text'' t])"
  by (simp add: update_preprint_dumps_def Let_def split: sum.splits prod.splits)

lemma handle_call_tool_try_shape:
  "(\<exists>e. fst (handle_call_tool_try env name arguments w) = Inl e) \<or>
   (\<exists>t. fst (handle_call_tool_try env name arguments w) = Inr [TextContent ''text'' t])"
  unfolding handle_call_tool_try_def
  using search_pubmed_shape search_arxiv_shape search_scholar_shape search_preprint_servers_shape
    get_citations_shape search_journal_impact_shape download_paper_pdf_shape
    update_preprint_dumps_shape
  by simp

lemma handle_call_tool_fst:
  "fst (handle_call_tool env name arguments w) =
     (case fst (handle_call_tool_try env name arguments w) of
        Inl e \<Rightarrow> [TextContent ''text'' (''Error: '' @ exn_msg e)]
      | Inr result \<Rightarrow> result)"
  by (simp add: handle_call_tool_def split: prod.splits sum.splits)

lemma handle_call_tool_snd:
  "snd (handle_call_tool env name arguments w) = snd (handle_call_tool_try env name arguments w)"
  by (simp add: handle_call_tool_def split: prod.splits sum.splits)

text \<open>
  C1. For every tool name, registered or not, and every arguments mapping, the dispatcher
  returns a non-empty list of text content blocks (in fact exactly one) and raises nothing:
  whatever exception the body of its \<^verbatim>\<open>try\<close> raises, in a handler or for an unknown name,
  is rendered as the single text block \<^verbatim>\<open>Error: {message}\<close>.
\<close>

theorem handle_call_tool_always_answers:
  "(\<exists>t. fst (handle_call_tool env name arguments w) = [TextContent ''text'' t]) \<and>
   (\<forall>e. fst (handle_call_tool_try env name arguments w) = Inl e \<longrightarrow>
        fst (handle_call_tool env name arguments w) = [TextContent ''text'' (''Error: '' @ exn_msg e)])"
proof
  from handle_call_tool_try_shape[of env name arguments w]
  show "\<exists>t. fst (handle_call_tool env name arguments w) = [TextContent ''text'' t]"
    by (auto simp: handle_call_tool_fst)
  show "\<forall>e. fst (handle_call_tool_try env name arguments w) = Inl e \<longrightarrow>
        fst (handle_call_tool env name arguments w) = [TextContent ''text'' (''Error: '' @ exn_msg e)]"
    by (simp add: handle_call_tool_fst)
qed

theorem handle_call_tool_always_answers_witness:
  "fst (handle_call_tool_try sample_env ''search_pubmed'' Map.empty empty_world) = Inl (KeyError ''query'') \<and>
   fst (handle_call_tool sample_env ''search_pubmed'' Map.empty empty_world)
     = [TextContent ''text'' (''Error: '' @ [CHR 0x27] @ ''query'' @ [CHR 0x27])]"
proof -
  have h: "fst (handle_call_tool_try sample_env ''search_pubmed'' Map.empty empty_world) = Inl (KeyError ''query'')"
    by (simp add: handle_call_tool_try_def search_pubmed_def dict_index_def)
  from handle_call_tool_always_answers[of sample_env "''search_pubmed''" Map.empty empty_world] h
  show ?thesis by simp
qed

text \<open>
  What \<^verbatim>\<open>tempfile\<close> itself creates is removed on every exit path of every tool call: the
  temporary files and the temporary directories alive after a call are those alive
  before it.
\<close>

lemma handle_call_tool_tmp_restored:
  "tmp_files (snd (handle_call_tool env name arguments w)) = tmp_files w \<and>
   tmp_dirs (snd (handle_call_tool env name arguments w)) = tmp_dirs w"
  unfolding handle_call_tool_snd handle_call_tool_try_def
  using search_pubmed_tmp search_arxiv_tmp search_scholar_tmp search_preprint_servers_tmp
    get_citations_tmp search_journal_impact_tmp download_paper_pdf_tmp update_preprint_dumps_tmp
  by simp

section \<open>Unknown tools\<close>

lemma catalog_names:
  "map tool_name handle_list_tools =
     [''search_pubmed'', ''search_arxiv'', ''search_scholar'', ''search_preprint_servers'',
      ''get_citations'', ''search_journal_impact'', ''download_paper_pdf'', ''update_preprint_dumps'']"
  by (simp add: handle_list_tools_def)

text \<open>
  C2, as amended. For every name that is not one of the eight names of the catalog and
  every arguments mapping, the dispatcher returns exactly one text block, whose text is
  \<^verbatim>\<open>Error: Unknown tool: {name}\<close>: the \<^verbatim>\<open>ValueError\<close> is raised inside the \<^verbatim>\<open>try\<close> and
  rendered by its \<^verbatim>\<open>except\<close> clause, which prefixes \<^verbatim>\<open>Error: \<close>. No collaborator runs.
\<close>

theorem handle_call_tool_unknown:
  assumes "name \<notin> set (map tool_name handle_list_tools)"
  shows "handle_call_tool env name arguments w
           = ([TextContent ''text'' (''Error: Unknown tool: '' @ name)], w)"
  using assms by (simp add: catalog_names handle_call_tool_def handle_call_tool_try_def)

theorem handle_call_tool_unknown_witness:
  "''bogus_tool'' \<notin> set (map tool_name handle_list_tools) \<and>
   handle_call_tool sample_env ''bogus_tool'' Map.empty empty_world
     = ([TextContent ''text'' ''Error: Unknown tool: bogus_tool''], empty_world)"
proof -
  have h: "''bogus_tool'' \<notin> set (map tool_name handle_list_tools)"
    by (simp add: catalog_names)
  from handle_call_tool_unknown[where env = sample_env and arguments = Map.empty and w = empty_world, OF h] h
  show ?thesis by simp
qed

text \<open>
  The claim as stated fails: for the unregistered name \<^verbatim>\<open>bogus_tool\<close> the text of the
  block is not \<^verbatim>\<open>Unknown tool: bogus_tool\<close>.
\<close>

theorem handle_call_tool_unknown_counterexample:
  "''bogus_tool'' \<notin> set (map tool_name handle_list_tools) \<and>
   fst (handle_call_tool sample_env ''bogus_tool'' Map.empty empty_world)
     \<noteq> [TextContent ''text'' ''Unknown tool: bogus_tool'']"
  by (simp add: catalog_names handle_call_tool_def handle_call_tool_try_def)

section \<open>Citations without a title or a DOI\<close>

text \<open>
  C7. A call of \<^verbatim>\<open>get_citations\<close> whose arguments hold neither \<^verbatim>\<open>title\<close> nor \<^verbatim>\<open>doi\<close>
  returns exactly one text block, with the text
  \<^verbatim>\<open>Error: Either title or DOI must be provided\<close>, and leaves the state, hence the log of
  collaborator invocations, unchanged: neither citation collaborator is called. The same
  holds through the dispatcher.
\<close>

theorem get_citations_neither:
  assumes "arguments ''title'' = None" and "arguments ''doi'' = None"
  shows "get_citations env arguments w
           = (Inr [TextContent ''text'' ''Error: Either title or DOI must be provided''], w) \<and>
         handle_call_tool env ''get_citations'' arguments w
           = ([TextContent ''text'' ''Error: Either title or DOI must be provided''], w)"
  using assms
  by (simp add: get_citations_def dict_get_def handle_call_tool_def handle_call_tool_try_def)

theorem get_citations_neither_witness:
  "handle_call_tool sample_env ''get_citations'' Map.empty empty_world
     = ([TextContent ''text'' ''Error: Either title or DOI must be provided''], empty_world) \<and>
   calls (snd (handle_call_tool sample_env ''get_citations'' Map.empty empty_world)) = []"
  using get_citations_neither[of Map.empty sample_env empty_world]
  by (simp add: empty_world_def)

section \<open>The unused result limit of the Scholar search\<close>

text \<open>
  C10. Two invocations of \<^verbatim>\<open>search_scholar\<close> whose arguments differ only in the value or
  the presence of \<^verbatim>\<open>max_results\<close> have the same result and the same effect, so they invoke
  the collaborator identically; the invocation carries the topic and the output path and
  nothing else.
\<close>

theorem search_scholar_ignores_max_results:
  assumes "\<And>k. k \<noteq> ''max_results'' \<Longrightarrow> a k = b k"
  shows "search_scholar env a w = search_scholar env b w \<and>
         (\<forall>topic. a ''topic'' = Some topic \<longrightarrow>
            calls (snd (search_scholar env a w)) = calls w @ [ScholarCall topic (jsonl_path (fresh_id w))] \<and>
            calls (snd (search_scholar env b w)) = calls w @ [ScholarCall topic (jsonl_path (fresh_id w))])"
proof -
  have "a ''topic'' = b ''topic''" using assms by simp
  then show ?thesis by (simp add: search_scholar_eq split: option.splits)
qed

theorem search_scholar_ignores_max_results_witness:
  "search_scholar sample_env [''topic'' \<mapsto> PStr ''graphs'', ''max_results'' \<mapsto> PInt 5] empty_world
     = search_scholar sample_env [''topic'' \<mapsto> PStr ''graphs''] empty_world \<and>
   calls (snd (search_scholar sample_env [''topic'' \<mapsto> PStr ''graphs'', ''max_results'' \<mapsto> PInt 5] empty_world))
     = [ScholarCall (PStr ''graphs'') (jsonl_path (fresh_id empty_world))]"
proof -
  let ?a = "[''topic'' \<mapsto> PStr ''graphs'', ''max_results'' \<mapsto> PInt 5]"
  let ?b = "[''topic'' \<mapsto> PStr ''graphs'']"
  have h: "\<And>k. k \<noteq> ''max_results'' \<Longrightarrow> ?a k = ?b k"
    by simp
  have t: "?a ''topic'' = Some (PStr ''graphs'')" by simp
  from search_scholar_ignores_max_results[where a = ?a and b = ?b and env = sample_env and w = empty_world, OF h] t
  show ?thesis by (simp add: empty_world_def)
qed

section \<open>Refreshing the dump of an unknown server\<close>

lemma update_step_extends:
  "\<exists>suf. fst (update_step env sd ed server response w) = response @ suf"
  by (simp add: update_step_def Let_def split_beta split: option.splits)

lemma update_loop_extends:
  "\<exists>suf. fst (update_loop env sd ed servers response w) = response @ suf"
proof (induction servers arbitrary: response w)
  case Nil
  show ?case by simp
next
  case (Cons server rest)
  obtain r' w' where st: "update_step env sd ed server response w = (r', w')"
    by (cases "update_step env sd ed server response w")
  from update_step_extends[of env sd ed server response w] st
  obtain s1 where r': "r' = response @ s1" by auto
  from Cons.IH[of r' w'] obtain s2 where "fst (update_loop env sd ed rest r' w') = r' @ s2" by blast
  with st r' show ?case by simp
qed

lemma update_step_unknown:
  "s \<noteq> ''biorxiv'' \<Longrightarrow> s \<noteq> ''medrxiv'' \<Longrightarrow> s \<noteq> ''chemrxiv'' \<Longrightarrow>
   update_step env sd ed (PStr s) response w
     = (response @ ''Updating '' @ s @ ''... '' @ check_mark @ '' Complete\<newline>'', w)"
  by (simp add: update_step_def Let_def)

lemma update_step_calls:
  "\<exists>new. calls (snd (update_step env sd ed server response w)) = calls w @ new \<and>
         (\<forall>c \<in> set new. \<exists>d. c = DumpRefresh ''biorxiv'' d \<or> c = DumpRefresh ''medrxiv'' d
                                \<or> c = DumpRefresh ''chemrxiv'' d)"
  by (auto simp: update_step_def call_refresh_def Let_def split: option.splits)

lemma update_loop_calls:
  "\<exists>new. calls (snd (update_loop env sd ed servers response w)) = calls w @ new \<and>
         (\<forall>c \<in> set new. \<exists>d. c = DumpRefresh ''biorxiv'' d \<or> c = DumpRefresh ''medrxiv'' d
                                \<or> c = DumpRefresh ''chemrxiv'' d)"
proof (induction servers arbitrary: response w)
  case Nil
  show ?case by simp
next
  case (Cons server rest)
  obtain r' w' where st: "update_step env sd ed server response w = (r', w')"
    by (cases "update_step env sd ed server response w")
  from update_step_calls[of env sd ed server response w] st
  obtain n1 where n1: "calls w' = calls w @ n1"
     "\<forall>c \<in> set n1. \<exists>d. c = DumpRefresh ''biorxiv'' d \<or> c = DumpRefresh ''medrxiv'' d
                                \<or> c = DumpRefresh ''chemrxiv'' d" by auto
  from Cons.IH[of r' w'] obtain n2 where n2: "calls (snd (update_loop env sd ed rest r' w')) = calls w' @ n2"
     "\<forall>c \<in> set n2. \<exists>d. c = DumpRefresh ''biorxiv'' d \<or> c = DumpRefresh ''medrxiv'' d
                                \<or> c = DumpRefresh ''chemrxiv'' d" by blast
  from st n1 n2 have "calls (snd (update_loop env sd ed (server # rest) response w)) = calls w @ (n1 @ n2)"
    by simp
  moreover from n1 n2 have "\<forall>c \<in> set (n1 @ n2). \<exists>d. c = DumpRefresh ''biorxiv'' d \<or> c = DumpRefresh ''medrxiv'' d
                                \<or> c = DumpRefresh ''chemrxiv'' d" by auto
  ultimately show ?case by blast
qed

lemma update_loop_line:
  assumes "PStr s \<in> set servers" "s \<noteq> ''biorxiv''" "s \<noteq> ''medrxiv''" "s \<noteq> ''chemrxiv''"
  shows "sublist (''Updating '' @ s @ ''... '' @ check_mark @ '' Complete\<newline>'')
           (fst (update_loop env sd ed servers response w))"
  using assms(1)
proof (induction servers arbitrary: response w)
  case Nil
  then show ?case by simp
next
  case (Cons server rest)
  let ?line = "''Updating '' @ s @ ''... '' @ check_mark @ '' Complete\<newline>''"
  show ?case
  proof (cases "server = PStr s")
    case True
    from update_loop_extends[of env sd ed rest "response @ ?line" w]
    obtain suf where "fst (update_loop env sd ed rest (response @ ?line) w) = (response @ ?line) @ suf"
      by blast
    with True assms(2-4) have "fst (update_loop env sd ed (server # rest) response w) = response @ ?line @ suf"
      by (simp add: update_step_unknown)
    then show ?thesis unfolding sublist_def by blast
  next
    case False
    with Cons.prems have "PStr s \<in> set rest" by simp
    obtain r' w' where st: "update_step env sd ed server response w = (r', w')"
      by (cases "update_step env sd ed server response w")
    from Cons.IH[OF \<open>PStr s \<in> set rest\<close>, of r' w'] st show ?thesis by simp
  qed
qed

text \<open>
  C9. For every name in the requested server list of \<^verbatim>\<open>update_preprint_dumps\<close> that is
  none of \<^verbatim>\<open>biorxiv\<close>, \<^verbatim>\<open>medrxiv\<close>, \<^verbatim>\<open>chemrxiv\<close>, no refresh collaborator is invoked for
  that server, and the response still holds the line reporting that its update is complete.
\<close>

theorem update_preprint_dumps_unknown_server:
  assumes "py_iter (dict_get arguments ''servers'' default_servers) = Inr servers"
    and "PStr s \<in> set servers"
    and "s \<noteq> ''biorxiv''" and "s \<noteq> ''medrxiv''" and "s \<noteq> ''chemrxiv''"
  shows "\<exists>t w' new.
           update_preprint_dumps env arguments w = (Inr [TextContent ''text'' t], w') \<and>
           sublist (''Updating '' @ s @ ''... '' @ check_mark @ '' Complete\<newline>'') t \<and>
           calls w' = calls w @ new \<and> (\<forall>d. DumpRefresh s d \<notin> set new)"
proof -
  let ?sd = "dict_get arguments ''start_date'' PNone"
  let ?ed = "dict_get arguments ''end_date'' PNone"
  let ?hdr = "''Updating preprint server dumps...\<newline>\<newline>''"
  let ?line = "''Updating '' @ s @ ''... '' @ check_mark @ '' Complete\<newline>''"
  obtain r w' where l: "update_loop env ?sd ?ed servers ?hdr w = (r, w')"
    by (cases "update_loop env ?sd ?ed servers ?hdr w")
  from update_loop_line[OF assms(2-5), of env ?sd ?ed ?hdr w] l have "sublist ?line r" by simp
  then obtain ps ss where "r = ps @ ?line @ ss" unfolding sublist_def by blast
  then have "r @ ''\<newline>Dump update process finished. Please restart to use updated dumps.''
               = ps @ ?line @ (ss @ ''\<newline>Dump update process finished. Please restart to use updated dumps.'')"
    by simp
  then have sub: "sublist ?line (r @ ''\<newline>Dump update process finished. Please restart to use updated dumps.'')"
    unfolding sublist_def by blast
  from update_loop_calls[of env ?sd ?ed servers ?hdr w] l
  obtain new where new: "calls w' = calls w @ new"
     "\<forall>c \<in> set new. \<exists>d. c = DumpRefresh ''biorxiv'' d \<or> c = DumpRefresh ''medrxiv'' d
                                \<or> c = DumpRefresh ''chemrxiv'' d" by auto
  from new(2) assms(3-5) have "\<forall>d. DumpRefresh s d \<notin> set new" by auto
  with assms(1) l sub new(1) show ?thesis
    by (simp add: update_preprint_dumps_def Let_def)
qed

theorem update_preprint_dumps_unknown_server_witness:
  "\<exists>t w' new.
     update_preprint_dumps sample_env [''servers'' \<mapsto> PList [PStr ''biorxiv'', PStr ''arxiv'']] empty_world
       = (Inr [TextContent ''text'' t], w') \<and>
     sublist (''Updating arxiv... '' @ check_mark @ '' Complete\<newline>'') t \<and>
     calls w' = calls empty_world @ new \<and> DumpRefresh ''arxiv'' None \<notin> set new"
proof -
  let ?a = "[''servers'' \<mapsto> PList [PStr ''biorxiv'', PStr ''arxiv'']]"
  have h1: "py_iter (dict_get ?a ''servers'' default_servers) = Inr [PStr ''biorxiv'', PStr ''arxiv'']"
    by (simp add: dict_get_def)
  have h2: "PStr ''arxiv'' \<in> set [PStr ''biorxiv'', PStr ''arxiv'']" by simp
  have h3: "''arxiv'' \<noteq> ''biorxiv''" "''arxiv'' \<noteq> ''medrxiv''" "''arxiv'' \<noteq> ''chemrxiv''" by simp_all
  from update_preprint_dumps_unknown_server[where arguments = ?a and env = sample_env and w = empty_world,
          OF h1 h2 h3]
  show ?thesis by auto
qed

section \<open>The options of the journal impact search\<close>

lemma search_args_keys:
  "map fst (search_args arguments) =
     (if truthy (dict_get arguments ''max_impact'' PNone)
      then [''threshold'', ''min_impact'', ''max_impact'']
      else [''threshold'', ''min_impact''])"
  by (simp add: search_args_def Let_def)

lemma search_args_values:
  "map_of (search_args arguments) ''threshold'' = Some (dict_get arguments ''threshold'' (PInt 85)) \<and>
   map_of (search_args arguments) ''min_impact'' = Some (dict_get arguments ''min_impact'' (PInt 0))"
  by (simp add: search_args_def Let_def)

lemma search_journal_impact_passes_search_args:
  "arguments ''journal_name'' = Some journal_name \<Longrightarrow> Impactor env = None \<Longrightarrow>
   calls (snd (search_journal_impact env arguments w))
     = calls w @ [ImpactorInit, ImpactorSearch journal_name (search_args arguments)]"
  by (simp add: search_journal_impact_def search_journal_impact_try_def dict_index_def Let_def
        split: sum.splits prod.splits)

text \<open>
  C6 at the input \<^verbatim>\<open>{"journal_name": "Nature", "max_impact": 0}\<close>: the key \<^verbatim>\<open>max_impact\<close>
  is present in the arguments, yet the options passed to the impact collaborator hold
  \<^verbatim>\<open>threshold\<close> and \<^verbatim>\<open>min_impact\<close> only, because the guard \<^verbatim>\<open>if max_impact:\<close> tests the
  truth of the value and 0 is false.
\<close>

theorem search_journal_impact_zero_max_impact:
  "calls (snd (search_journal_impact sample_env
                 [''journal_name'' \<mapsto> PStr ''Nature'', ''max_impact'' \<mapsto> PInt 0] empty_world))
     = [ImpactorInit,
        ImpactorSearch (PStr ''Nature'') [(''threshold'', PInt 85), (''min_impact'', PInt 0)]]"
  by (simp add: search_journal_impact_def search_journal_impact_try_def dict_index_def Let_def
        search_args_def dict_get_def sample_env_def empty_world_def)

section \<open>Numbered entries and the preprint loop in closed form\<close>

lemma entries_length: "length (entries entry papers) = length papers"
  by (simp add: entries_def)

lemma entries_take_length: "length (entries entry (take k papers)) = min (length papers) k"
  by (simp add: entries_def)

lemma entries_nth:
  "i < length papers \<Longrightarrow> entries entry papers ! i = entry i (papers ! i)"
  by (simp add: entries_def nth_enumerate_eq)

lemma more_results_empty: "(more_results n k = []) = (n \<le> k)"
  by (auto simp: more_results_def)

lemma read_back_ok:
  "raised out = None \<Longrightarrow> file_after out = Some rs \<Longrightarrow> read_back out n = Inr rs"
  by (simp add: read_back_def)

lemma lookup_hashable: "hashable v \<Longrightarrow> \<exists>r. lookup_query_fn env v = Inr r"
  by (cases v) (simp_all add: lookup_query_fn_def)

lemma active_servers_set:
  "set (active_servers env servers)
     = {s. PStr s \<in> set servers \<and> s \<in> fst ` set (QUERY_FN_DICT env)}"
proof (induction servers)
  case Nil
  show ?case by simp
next
  case (Cons v rest)
  then show ?case
    by (cases v) (auto simp: map_of_eq_None_iff)
qed

lemma preprint_loop_succeeds:
  assumes "\<forall>v \<in> set servers. hashable v"
    and "\<forall>s \<in> set (active_servers env servers).
           raised (server_outcome env query s) = None \<and> file_after (server_outcome env query s) \<noteq> None"
  shows "\<exists>st' w'. preprint_loop env query servers st w = (Inr st', w')"
  using assms
proof (induction servers arbitrary: st w)
  case Nil
  show ?case by simp
next
  case (Cons server rest)
  from Cons.prems(1) have "hashable server" by simp
  from lookup_hashable[OF this] obtain found where look: "lookup_query_fn env server = Inr found" by blast
  from Cons.prems(1) have hr: "\<forall>v \<in> set rest. hashable v" by simp
  show ?case
  proof (cases found)
    case None
    with look lookup_none[of env server rest] Cons.prems(2)
    have ar: "\<forall>s \<in> set (active_servers env rest).
           raised (server_outcome env query s) = None \<and> file_after (server_outcome env query s) \<noteq> None"
      by simp
    from Cons.IH[OF hr ar, of st w] look None show ?thesis by (simp add: preprint_step_eq)
  next
    case (Some sf)
    obtain s fn where sf: "sf = (s, fn)" by (cases sf)
    from look Some sf have look': "lookup_query_fn env server = Inr (Some (s, fn))" by simp
    from lookup_some[OF look'] have srv: "server = PStr s" and fn: "map_of (QUERY_FN_DICT env) s = Some fn"
      by simp_all
    from srv fn have act: "active_servers env (server # rest) = s # active_servers env rest" by simp
    from fn have out: "server_outcome env query s = snd (fn query)" by (simp add: server_outcome_def)
    from Cons.prems(2) act out obtain rs where
      "raised (snd (fn query)) = None" "file_after (snd (fn query)) = Some rs" by auto
    from read_back_ok[OF this] have rb: "read_back (snd (fn query)) (fresh_id w) = Inr rs" .
    from Cons.prems(2) act
    have ar: "\<forall>s \<in> set (active_servers env rest).
           raised (server_outcome env query s) = None \<and> file_after (server_outcome env query s) \<noteq> None"
      by simp
    from Cons.IH[OF hr ar] look' rb show ?thesis by (simp add: preprint_step_eq)
  qed
qed

lemma length_concat_sum: "length (concat xss) = sum_list (map length xss)"
  by (induction xss) simp_all

lemma search_preprint_servers_closed:
  assumes "arguments ''query'' = Some query"
    and "py_iter (dict_get arguments ''servers'' default_servers) = Inr servers"
    and "fst (search_preprint_servers env arguments w) = Inr out"
  shows "out = [TextContent ''text''
                 (''Total papers found across '' @ str_nat (length servers) @ '' servers: ''
                  @ str_nat (sum_list (map (\<lambda>s. length (server_results env query s))
                                        (active_servers env servers)))
                  @ ''\<newline>''
                  @ concat (map (\<lambda>s. server_section env s (server_results env query s))
                              (active_servers env servers)))] \<and>
         snd (search_preprint_servers env arguments w)
           = w\<lparr>calls := calls w @ map (server_call env query (jsonl_path (fresh_id w)))
                                        (active_servers env servers)\<rparr>"
proof -
  obtain r w' where l: "preprint_loop env query servers ([], []) w = (r, w')"
    by (cases "preprint_loop env query servers ([], []) w")
  show ?thesis
  proof (cases r)
    case (Inl e)
    with assms l show ?thesis by (simp add: search_preprint_servers_def dict_index_def)
  next
    case (Inr st')
    with l have "preprint_loop env query servers ([], []) w = (Inr st', w')" by simp
    from preprint_loop_closed[OF this]
    have c: "fst st' = concat (map (server_results env query) (active_servers env servers))"
        "snd st' = concat (map (\<lambda>s. server_section env s (server_results env query s))
                                   (active_servers env servers))"
        "w' = w\<lparr>calls := calls w @ map (server_call env query (jsonl_path (fresh_id w)))
                                  (active_servers env servers)\<rparr>" by simp_all
    from c(1) have len: "length (fst st') = sum_list (map (\<lambda>s. length (server_results env query s))
                                        (active_servers env servers))"
      by (simp add: length_concat_sum comp_def)
    from assms l Inr have "out = [TextContent ''text''
                            (''Total papers found across '' @ str_nat (length servers) @ '' servers: ''
                             @ str_nat (length (fst st')) @ ''\<newline>'' @ snd st')]"
      and "snd (search_preprint_servers env arguments w) = w'"
      by (auto simp: search_preprint_servers_def dict_index_def split: prod.splits)
    with len c(2,3) show ?thesis by simp
  qed
qed

lemma search_preprint_servers_world:
  assumes "arguments ''query'' = Some query"
    and "py_iter (dict_get arguments ''servers'' default_servers) = Inr servers"
  shows "\<exists>k. snd (search_preprint_servers env arguments w)
           = w\<lparr>calls := calls w @ map (server_call env query (jsonl_path (fresh_id w)))
                                        (take k (active_servers env servers))\<rparr>"
proof -
  obtain r w' where l: "preprint_loop env query servers ([], []) w = (r, w')"
    by (cases "preprint_loop env query servers ([], []) w")
  from preprint_loop_world[of env query servers "([], [])" w] l
  obtain k where "w' = w\<lparr>calls := calls w @ map (server_call env query (jsonl_path (fresh_id w)))
                                        (take k (active_servers env servers))\<rparr>" by auto
  moreover from assms l have "snd (search_preprint_servers env arguments w) = w'"
    by (cases r) (auto simp: search_preprint_servers_def dict_index_def split: prod.splits)
  ultimately show ?thesis by blast
qed

lemma search_preprint_servers_succeeds:
  assumes "arguments ''query'' = Some query"
    and "py_iter (dict_get arguments ''servers'' default_servers) = Inr servers"
    and "\<forall>v \<in> set servers. hashable v"
    and "\<forall>s \<in> set (active_servers env servers).
           raised (server_outcome env query s) = None \<and> file_after (server_outcome env query s) \<noteq> None"
  shows "\<exists>out. fst (search_preprint_servers env arguments w) = Inr out"
proof -
  from preprint_loop_succeeds[OF assms(3,4), of "([], [])" w]
  obtain st' w' where "preprint_loop env query servers ([], []) w = (Inr st', w')" by blast
  with assms(1,2) show ?thesis
    by (simp add: search_preprint_servers_def dict_index_def split: prod.splits)
qed

section \<open>Searching the preprint servers\<close>

text \<open>
  C5. For every requested server list, \<^verbatim>\<open>search_preprint_servers\<close> queries only requested
  servers that are keys of \<^verbatim>\<open>QUERY_FN_DICT\<close>, in the order requested; when it returns a
  response, every such server was queried, the response holds one section per such server
  and none for any other, and the total it reports is the sum of the numbers of records
  of those servers.
\<close>

theorem search_preprint_servers_active_only:
  assumes "arguments ''query'' = Some query"
    and "py_iter (dict_get arguments ''servers'' default_servers) = Inr servers"
  shows "set (active_servers env servers)
           = {s. PStr s \<in> set servers \<and> s \<in> fst ` set (QUERY_FN_DICT env)} \<and>
         (\<exists>k. calls (snd (search_preprint_servers env arguments w))
                 = calls w @ map (server_call env query (jsonl_path (fresh_id w)))
                                 (take k (active_servers env servers))) \<and>
         (\<forall>out. fst (search_preprint_servers env arguments w) = Inr out \<longrightarrow>
            out = [TextContent ''text''
                    (''Total papers found across '' @ str_nat (length servers) @ '' servers: ''
                     @ str_nat (sum_list (map (\<lambda>s. length (server_results env query s))
                                           (active_servers env servers)))
                     @ ''\<newline>''
                     @ concat (map (\<lambda>s. server_section env s (server_results env query s))
                                 (active_servers env servers)))] \<and>
            calls (snd (search_preprint_servers env arguments w))
              = calls w @ map (server_call env query (jsonl_path (fresh_id w)))
                              (active_servers env servers))"
proof (intro conjI allI impI)
  show "set (active_servers env servers)
           = {s. PStr s \<in> set servers \<and> s \<in> fst ` set (QUERY_FN_DICT env)}"
    by (rule active_servers_set)
  from search_preprint_servers_world[OF assms, of env w]
  obtain k where "snd (search_preprint_servers env arguments w)
           = w\<lparr>calls := calls w @ map (server_call env query (jsonl_path (fresh_id w)))
                                        (take k (active_servers env servers))\<rparr>" by blast
  then have "calls (snd (search_preprint_servers env arguments w))
                 = calls w @ map (server_call env query (jsonl_path (fresh_id w)))
                                 (take k (active_servers env servers))" by simp
  then show "\<exists>k. calls (snd (search_preprint_servers env arguments w))
                 = calls w @ map (server_call env query (jsonl_path (fresh_id w)))
                                 (take k (active_servers env servers))" by blast
next
  fix out
  assume r: "fst (search_preprint_servers env arguments w) = Inr out"
  from search_preprint_servers_closed[OF assms r]
  show "out = [TextContent ''text''
                    (''Total papers found across '' @ str_nat (length servers) @ '' servers: ''
                     @ str_nat (sum_list (map (\<lambda>s. length (server_results env query s))
                                           (active_servers env servers)))
                     @ ''\<newline>''
                     @ concat (map (\<lambda>s. server_section env s (server_results env query s))
                                 (active_servers env servers)))]"
    by simp
  from search_preprint_servers_closed[OF assms r]
  show "calls (snd (search_preprint_servers env arguments w))
              = calls w @ map (server_call env query (jsonl_path (fresh_id w)))
                              (active_servers env servers)"
    by simp
qed

lemma sample_papers_length: "length (sample_papers n) = n"
  by (simp add: sample_papers_def)

lemma sample_index:
  "map fst (QUERY_FN_DICT sample_env) = [''arxiv'', ''pubmed'', ''biorxiv'']"
  by (simp add: QUERY_FN_DICT_def sample_env_def)

lemma sample_active:
  "active_servers sample_env [PStr ''biorxiv'', PStr ''chemrxiv''] = [''biorxiv'']"
  by (simp add: QUERY_FN_DICT_def sample_env_def)

lemma sample_biorxiv:
  "server_results sample_env q ''biorxiv'' = sample_papers 6 \<and>
   server_outcome sample_env q ''biorxiv'' = DumpOutcome None (Some (sample_papers 6)) \<and>
   server_call sample_env q p ''biorxiv'' = XrxivCall ''biorxiv'' q p"
  by (simp add: server_results_def server_outcome_def server_call_def QUERY_FN_DICT_def sample_env_def)

theorem search_preprint_servers_active_only_witness:
  "fst (search_preprint_servers sample_env
          [''query'' \<mapsto> PList [PList [PStr ''cancer'']],
           ''servers'' \<mapsto> PList [PStr ''biorxiv'', PStr ''chemrxiv'']] empty_world)
     = Inr [TextContent ''text''
             (''Total papers found across '' @ str_nat 2 @ '' servers: '' @ str_nat 6 @ ''\<newline>''
              @ server_section sample_env ''biorxiv'' (sample_papers 6))] \<and>
   calls (snd (search_preprint_servers sample_env
          [''query'' \<mapsto> PList [PList [PStr ''cancer'']],
           ''servers'' \<mapsto> PList [PStr ''biorxiv'', PStr ''chemrxiv'']] empty_world))
     = [XrxivCall ''biorxiv'' (PList [PList [PStr ''cancer'']]) (jsonl_path (fresh_id empty_world))]"
proof -
  let ?q = "PList [PList [PStr ''cancer'']]"
  let ?servers = "[PStr ''biorxiv'', PStr ''chemrxiv'']"
  let ?a = "[''query'' \<mapsto> ?q, ''servers'' \<mapsto> PList ?servers]"
  have h1: "?a ''query'' = Some ?q" by simp
  have h2: "py_iter (dict_get ?a ''servers'' default_servers) = Inr ?servers"
    by (simp add: dict_get_def)
  have ok: "\<forall>s \<in> set (active_servers sample_env ?servers).
           raised (server_outcome sample_env ?q s) = None \<and> file_after (server_outcome sample_env ?q s) \<noteq> None"
    unfolding sample_active by (simp add: sample_biorxiv)
  have "\<forall>v \<in> set ?servers. hashable v" by simp
  from search_preprint_servers_succeeds[OF h1 h2 this ok, of empty_world]
  obtain out where r: "fst (search_preprint_servers sample_env ?a empty_world) = Inr out" by blast
  from search_preprint_servers_active_only[where env = sample_env and w = empty_world, OF h1 h2,
         unfolded sample_active] r
  show ?thesis
    by (simp add: sample_biorxiv sample_papers_length empty_world_def numeral_2_eq_2)
qed

section \<open>The truncation law\<close>

lemma search_pubmed_text:
  assumes "arguments ''query'' = Some query"
    and "get_and_dump_pubmed_papers env query (Some (dict_get arguments ''max_results'' (PInt 100)))
           = DumpOutcome None (Some results)"
  shows "fst (search_pubmed env arguments w) = Inr [TextContent ''text''
           (''Found '' @ str_nat (length results) @ '' papers in PubMed\<newline>\<newline>''
            @ concat (entries (pubmed_entry env) (take 10 results))
            @ more_results (length results) 10)]"
  using assms by (simp add: search_pubmed_eq read_back_ok render_pubmed_closed)

lemma search_arxiv_text:
  assumes "arguments ''query'' = Some query"
    and "get_and_dump_arxiv_papers env query (Some (dict_get arguments ''max_results'' (PInt 100)))
           = DumpOutcome None (Some results)"
  shows "fst (search_arxiv env arguments w) = Inr [TextContent ''text''
           (''Found '' @ str_nat (length results) @ '' papers in arXiv\<newline>\<newline>''
            @ concat (entries (arxiv_entry env) (take 10 results))
            @ more_results (length results) 10)]"
  using assms by (simp add: search_arxiv_eq read_back_ok render_arxiv_closed)

lemma search_scholar_text:
  assumes "arguments ''topic'' = Some topic"
    and "get_and_dump_scholar_papers env topic = DumpOutcome None (Some results)"
  shows "fst (search_scholar env arguments w) = Inr [TextContent ''text''
           (''Found '' @ str_nat (length results) @ '' papers in Google Scholar\<newline>\<newline>''
            @ concat (entries (scholar_entry env) (take 10 results))
            @ more_results (length results) 10)]"
  using assms by (simp add: search_scholar_eq read_back_ok render_scholar_closed)

lemma search_preprint_servers_text:
  assumes "arguments ''query'' = Some query"
    and "py_iter (dict_get arguments ''servers'' default_servers) = Inr servers"
    and "fst (search_preprint_servers env arguments w) = Inr out"
  shows "out = [TextContent ''text''
           (''Total papers found across '' @ str_nat (length servers) @ '' servers: ''
            @ str_nat (sum_list (map (\<lambda>s. length (server_results env query s))
                                  (active_servers env servers)))
            @ ''\<newline>''
            @ concat (map (\<lambda>s. ''\<newline>'' @ py_upper s @ '': Found ''
                                @ str_nat (length (server_results env query s)) @ '' papers\<newline>''
                                @ concat (entries (preprint_entry env) (take 5 (server_results env query s))))
                        (active_servers env servers)))]"
  using search_preprint_servers_closed[OF assms] by (simp add: server_section_def)

lemma entry_numbers:
  "prefix (str_nat (i + 1) @ ''. '') (pubmed_entry env i paper) \<and>
   prefix (str_nat (i + 1) @ ''. '') (arxiv_entry env i paper) \<and>
   prefix (str_nat (i + 1) @ ''. '') (scholar_entry env i paper) \<and>
   prefix (''  '' @ str_nat (i + 1) @ ''. '') (preprint_entry env i paper)"
  by (simp add: pubmed_entry_def arxiv_entry_def scholar_entry_def preprint_entry_def prefix_def)

text \<open>
  C4, as amended. When the collaborator of \<^verbatim>\<open>search_pubmed\<close>, \<^verbatim>\<open>search_arxiv\<close> or
  \<^verbatim>\<open>search_scholar\<close> yields \<open>n\<close> records, the rendered text is the header, then exactly
  \<open>min n 10\<close> entries numbered from 1, then the line reporting \<open>n - 10\<close> more results, which
  is present if and only if \<open>n > 10\<close>. In a response of \<^verbatim>\<open>search_preprint_servers\<close> the
  section of a server that yields \<open>n\<close> records is its header line, which reports \<open>n\<close>,
  then exactly \<open>min n 5\<close> entries numbered from 1, and nothing else: a section never has a
  line reporting further results.
\<close>

theorem truncation_law:
  "(\<forall>arguments query results w.
      arguments ''query'' = Some query \<and>
      get_and_dump_pubmed_papers env query (Some (dict_get arguments ''max_results'' (PInt 100)))
        = DumpOutcome None (Some results) \<longrightarrow>
      fst (search_pubmed env arguments w) = Inr [TextContent ''text''
        (''Found '' @ str_nat (length results) @ '' papers in PubMed\<newline>\<newline>''
         @ concat (entries (pubmed_entry env) (take 10 results))
         @ more_results (length results) 10)]) \<and>
   (\<forall>arguments query results w.
      arguments ''query'' = Some query \<and>
      get_and_dump_arxiv_papers env query (Some (dict_get arguments ''max_results'' (PInt 100)))
        = DumpOutcome None (Some results) \<longrightarrow>
      fst (search_arxiv env arguments w) = Inr [TextContent ''text''
        (''Found '' @ str_nat (length results) @ '' papers in arXiv\<newline>\<newline>''
         @ concat (entries (arxiv_entry env) (take 10 results))
         @ more_results (length results) 10)]) \<and>
   (\<forall>arguments topic results w.
      arguments ''topic'' = Some topic \<and>
      get_and_dump_scholar_papers env topic = DumpOutcome None (Some results) \<longrightarrow>
      fst (search_scholar env arguments w) = Inr [TextContent ''text''
        (''Found '' @ str_nat (length results) @ '' papers in Google Scholar\<newline>\<newline>''
         @ concat (entries (scholar_entry env) (take 10 results))
         @ more_results (length results) 10)]) \<and>
   (\<forall>arguments query servers out w.
      arguments ''query'' = Some query \<and>
      py_iter (dict_get arguments ''servers'' default_servers) = Inr servers \<and>
      fst (search_preprint_servers env arguments w) = Inr out \<longrightarrow>
      out = [TextContent ''text''
        (''Total papers found across '' @ str_nat (length servers) @ '' servers: ''
         @ str_nat (sum_list (map (\<lambda>s. length (server_results env query s))
                               (active_servers env servers)))
         @ ''\<newline>''
         @ concat (map (\<lambda>s. ''\<newline>'' @ py_upper s @ '': Found ''
                             @ str_nat (length (server_results env query s)) @ '' papers\<newline>''
                             @ concat (entries (preprint_entry env) (take 5 (server_results env query s))))
                     (active_servers env servers)))]) \<and>
   (\<forall>entry k (results :: paper list). length (entries entry (take k results)) = min (length results) k) \<and>
   (\<forall>i paper.
      prefix (str_nat (i + 1) @ ''. '') (pubmed_entry env i paper) \<and>
      prefix (str_nat (i + 1) @ ''. '') (arxiv_entry env i paper) \<and>
      prefix (str_nat (i + 1) @ ''. '') (scholar_entry env i paper) \<and>
      prefix (''  '' @ str_nat (i + 1) @ ''. '') (preprint_entry env i paper)) \<and>
   (\<forall>n k. (more_results n k \<noteq> []) = (n > k))"
proof (intro conjI)
  show "\<forall>arguments query results w.
      arguments ''query'' = Some query \<and>
      get_and_dump_pubmed_papers env query (Some (dict_get arguments ''max_results'' (PInt 100)))
        = DumpOutcome None (Some results) \<longrightarrow>
      fst (search_pubmed env arguments w) = Inr [TextContent ''text''
        (''Found '' @ str_nat (length results) @ '' papers in PubMed\<newline>\<newline>''
         @ concat (entries (pubmed_entry env) (take 10 results))
         @ more_results (length results) 10)]"
    by (intro allI impI, elim conjE, erule (1) search_pubmed_text)
  show "\<forall>arguments query results w.
      arguments ''query'' = Some query \<and>
      get_and_dump_arxiv_papers env query (Some (dict_get arguments ''max_results'' (PInt 100)))
        = DumpOutcome None (Some results) \<longrightarrow>
      fst (search_arxiv env arguments w) = Inr [TextContent ''text''
        (''Found '' @ str_nat (length results) @ '' papers in arXiv\<newline>\<newline>''
         @ concat (entries (arxiv_entry env) (take 10 results))
         @ more_results (length results) 10)]"
    by (intro allI impI, elim conjE, erule (1) search_arxiv_text)
  show "\<forall>arguments topic results w.
      arguments ''topic'' = Some topic \<and>
      get_and_dump_scholar_papers env topic = DumpOutcome None (Some results) \<longrightarrow>
      fst (search_scholar env arguments w) = Inr [TextContent ''text''
        (''Found '' @ str_nat (length results) @ '' papers in Google Scholar\<newline>\<newline>''
         @ concat (entries (scholar_entry env) (take 10 results))
         @ more_results (length results) 10)]"
    by (intro allI impI, elim conjE, erule (1) search_scholar_text)
  show "\<forall>arguments query servers out w.
      arguments ''query'' = Some query \<and>
      py_iter (dict_get arguments ''servers'' default_servers) = Inr servers \<and>
      fst (search_preprint_servers env arguments w) = Inr out \<longrightarrow>
      out = [TextContent ''text''
        (''Total papers found across '' @ str_nat (length servers) @ '' servers: ''
         @ str_nat (sum_list (map (\<lambda>s. length (server_results env query s))
                               (active_servers env servers)))
         @ ''\<newline>''
         @ concat (map (\<lambda>s. ''\<newline>'' @ py_upper s @ '': Found ''
                             @ str_nat (length (server_results env query s)) @ '' papers\<newline>''
                             @ concat (entries (preprint_entry env) (take 5 (server_results env query s))))
                     (active_servers env servers)))]"
    by (intro allI impI, elim conjE, erule (2) search_preprint_servers_text)
  show "\<forall>entry k (results :: paper list). length (entries entry (take k results)) = min (length results) k"
    by (simp add: entries_take_length)
  show "\<forall>i paper.
      prefix (str_nat (i + 1) @ ''. '') (pubmed_entry env i paper) \<and>
      prefix (str_nat (i + 1) @ ''. '') (arxiv_entry env i paper) \<and>
      prefix (str_nat (i + 1) @ ''. '') (scholar_entry env i paper) \<and>
      prefix (''  '' @ str_nat (i + 1) @ ''. '') (preprint_entry env i paper)"
    using entry_numbers by blast
  show "\<forall>n k. (more_results n k \<noteq> []) = (n > k)"
    by (auto simp: more_results_def)
qed

theorem truncation_law_witness:
  "fst (search_pubmed sample_env [''query'' \<mapsto> PList [PList [PStr ''cancer'']], ''max_results'' \<mapsto> PInt 5]
          empty_world)
     = Inr [TextContent ''text''
        (''Found '' @ str_nat 12 @ '' papers in PubMed\<newline>\<newline>''
         @ concat (entries (pubmed_entry sample_env) (take 10 (sample_papers 12)))
         @ ''... and '' @ str_nat 2 @ '' more results\<newline>'')] \<and>
   length (entries (pubmed_entry sample_env) (take 10 (sample_papers 12))) = 10 \<and>
   fst (search_arxiv sample_env [''query'' \<mapsto> PList [PList [PStr ''cancer'']]] empty_world)
     = Inr [TextContent ''text''
        (''Found '' @ str_nat 2 @ '' papers in arXiv\<newline>\<newline>''
         @ concat (entries (arxiv_entry sample_env) (sample_papers 2)))] \<and>
   fst (search_scholar sample_env [''topic'' \<mapsto> PStr ''graphs''] empty_world)
     = Inr [TextContent ''text''
        (''Found '' @ str_nat 11 @ '' papers in Google Scholar\<newline>\<newline>''
         @ concat (entries (scholar_entry sample_env) (take 10 (sample_papers 11)))
         @ ''... and '' @ str_nat 1 @ '' more results\<newline>'')] \<and>
   fst (search_preprint_servers sample_env
          [''query'' \<mapsto> PList [PList [PStr ''cancer'']],
           ''servers'' \<mapsto> PList [PStr ''biorxiv'', PStr ''chemrxiv'']] empty_world)
     = Inr [TextContent ''text''
        (''Total papers found across '' @ str_nat 2 @ '' servers: '' @ str_nat 6 @ ''\<newline>''
         @ ''\<newline>'' @ ''BIORXIV'' @ '': Found '' @ str_nat 6 @ '' papers\<newline>''
         @ concat (entries (preprint_entry sample_env) (take 5 (sample_papers 6))))]"
proof -
  let ?q = "PList [PList [PStr ''cancer'']]"
  let ?ap = "[''query'' \<mapsto> ?q, ''max_results'' \<mapsto> PInt 5]"
  let ?aa = "[''query'' \<mapsto> ?q]"
  let ?as = "[''topic'' \<mapsto> PStr ''graphs'']"
  let ?servers = "[PStr ''biorxiv'', PStr ''chemrxiv'']"
  let ?ax = "[''query'' \<mapsto> ?q, ''servers'' \<mapsto> PList ?servers]"
  note T = truncation_law[of sample_env]
  have hp: "?ap ''query'' = Some ?q \<and>
      get_and_dump_pubmed_papers sample_env ?q (Some (dict_get ?ap ''max_results'' (PInt 100)))
        = DumpOutcome None (Some (sample_papers 12))"
    by (simp add: sample_env_def)
  have ha: "?aa ''query'' = Some ?q \<and>
      get_and_dump_arxiv_papers sample_env ?q (Some (dict_get ?aa ''max_results'' (PInt 100)))
        = DumpOutcome None (Some (sample_papers 2))"
    by (simp add: sample_env_def)
  have hs: "?as ''topic'' = Some (PStr ''graphs'') \<and>
      get_and_dump_scholar_papers sample_env (PStr ''graphs'') = DumpOutcome None (Some (sample_papers 11))"
    by (simp add: sample_env_def)
  have h1: "?ax ''query'' = Some ?q" by simp
  have h2: "py_iter (dict_get ?ax ''servers'' default_servers) = Inr ?servers"
    by (simp add: dict_get_def)
  have ok: "\<forall>s \<in> set (active_servers sample_env ?servers).
           raised (server_outcome sample_env ?q s) = None \<and> file_after (server_outcome sample_env ?q s) \<noteq> None"
    unfolding sample_active by (simp add: sample_biorxiv)
  have "\<forall>v \<in> set ?servers. hashable v" by simp
  from search_preprint_servers_succeeds[OF h1 h2 this ok, of empty_world]
  obtain out where r: "fst (search_preprint_servers sample_env ?ax empty_world) = Inr out" by blast
  have up: "py_upper ''biorxiv'' = ''BIORXIV''" by code_simp
  from T[THEN conjunct1, rule_format, of ?ap ?q "sample_papers 12" empty_world, OF hp]
  have c1: "fst (search_pubmed sample_env ?ap empty_world)
     = Inr [TextContent ''text''
        (''Found '' @ str_nat 12 @ '' papers in PubMed\<newline>\<newline>''
         @ concat (entries (pubmed_entry sample_env) (take 10 (sample_papers 12)))
         @ ''... and '' @ str_nat 2 @ '' more results\<newline>'')]"
    by (simp add: sample_papers_length more_results_def)
  from T[THEN conjunct2, THEN conjunct2, THEN conjunct2, THEN conjunct2, THEN conjunct1, rule_format,
         of "pubmed_entry sample_env" 10 "sample_papers 12"]
  have c1': "length (entries (pubmed_entry sample_env) (take 10 (sample_papers 12))) = 10"
    by (simp add: sample_papers_length)
  from T[THEN conjunct2, THEN conjunct1, rule_format, of ?aa ?q "sample_papers 2" empty_world, OF ha]
  have c2: "fst (search_arxiv sample_env ?aa empty_world)
     = Inr [TextContent ''text''
        (''Found '' @ str_nat 2 @ '' papers in arXiv\<newline>\<newline>''
         @ concat (entries (arxiv_entry sample_env) (sample_papers 2)))]"
    by (simp add: sample_papers_length more_results_def)
  from T[THEN conjunct2, THEN conjunct2, THEN conjunct1, rule_format,
         of ?as "PStr ''graphs''" "sample_papers 11" empty_world, OF hs]
  have c3: "fst (search_scholar sample_env ?as empty_world)
     = Inr [TextContent ''text''
        (''Found '' @ str_nat 11 @ '' papers in Google Scholar\<newline>\<newline>''
         @ concat (entries (scholar_entry sample_env) (take 10 (sample_papers 11)))
         @ ''... and '' @ str_nat 1 @ '' more results\<newline>'')]"
    by (simp add: sample_papers_length more_results_def)
  from T[THEN conjunct2, THEN conjunct2, THEN conjunct2, THEN conjunct1, rule_format,
         where arguments = ?ax and query = ?q and servers = ?servers and out = out and w = empty_world,
         unfolded sample_active] h1 h2 r
  have c4: "fst (search_preprint_servers sample_env ?ax empty_world)
     = Inr [TextContent ''text''
        (''Total papers found across '' @ str_nat 2 @ '' servers: '' @ str_nat 6 @ ''\<newline>''
         @ ''\<newline>'' @ ''BIORXIV'' @ '': Found '' @ str_nat 6 @ '' papers\<newline>''
         @ concat (entries (preprint_entry sample_env) (take 5 (sample_papers 6))))]"
    by (simp add: sample_biorxiv sample_papers_length numeral_2_eq_2 up)
  show ?thesis by (intro conjI c1 c1' c2 c3 c4)
qed

text \<open>
  The claim as stated fails for the sections of \<^verbatim>\<open>search_preprint_servers\<close>: bioRxiv
  yields 6 records, the cap is 5, the section holds 5 numbered entries and the response
  ends after the fifth, with no line reporting one more result.
\<close>

theorem truncation_law_counterexample:
  "map_option length (file_after (search_keywords sample_env ''biorxiv'' (PList [PList [PStr ''cancer'']])))
     = Some 6 \<and>
   fst (search_preprint_servers sample_env
          [''query'' \<mapsto> PList [PList [PStr ''cancer'']], ''servers'' \<mapsto> PList [PStr ''biorxiv'']]
          empty_world)
     = Inr [TextContent ''text''
       ''Total papers found across 1 servers: 6\<newline>\<newline>BIORXIV: Found 6 papers\<newline>  1. Paper 0\<newline>     Authors: Unknown\<newline>     Date: Unknown\<newline>     DOI: 10.1000/x\<newline>\<newline>  2. Paper 1\<newline>     Authors: Unknown\<newline>     Date: Unknown\<newline>     DOI: 10.1000/x\<newline>\<newline>  3. Paper 2\<newline>     Authors: Unknown\<newline>     Date: Unknown\<newline>     DOI: 10.1000/x\<newline>\<newline>  4. Paper 3\<newline>     Authors: Unknown\<newline>     Date: Unknown\<newline>     DOI: 10.1000/x\<newline>\<newline>  5. Paper 4\<newline>     Authors: Unknown\<newline>     Date: Unknown\<newline>     DOI: 10.1000/x\<newline>\<newline>'']"
  by code_simp

section \<open>Files left behind by a call\<close>

lemma update_step_files: "files (snd (update_step env sd ed server response w)) = files w"
  by (simp add: update_step_def call_refresh_def Let_def split: option.splits)

lemma update_loop_files: "files (snd (update_loop env sd ed servers response w)) = files w"
proof (induction servers arbitrary: response w)
  case Nil
  show ?case by simp
next
  case (Cons server rest)
  obtain r' w' where st: "update_step env sd ed server response w = (r', w')"
    by (cases "update_step env sd ed server response w")
  with update_step_files[of env sd ed server response w] have "files w' = files w" by simp
  with Cons.IH[of r' w'] st show ?case by simp
qed

lemma preprint_loop_files: "files (snd (preprint_loop env query servers st w)) = files w"
proof -
  obtain k where "snd (preprint_loop env query servers st w)
         = w\<lparr>calls := calls w @ map (server_call env query (jsonl_path (fresh_id w)))
                                    (take k (active_servers env servers))\<rparr>"
    using preprint_loop_world by blast
  then show ?thesis by simp
qed

text \<open>
  The handlers other than \<^verbatim>\<open>download_paper_pdf\<close> leave no file behind: the files after a
  call are those before it.
\<close>

lemma other_tools_files:
  assumes "name \<noteq> ''download_paper_pdf''"
  shows "files (snd (handle_call_tool env name arguments w)) = files w"
proof -
  have p: "files (snd (search_pubmed env arguments w)) = files w"
    by (simp add: search_pubmed_eq split: option.splits)
  have a: "files (snd (search_arxiv env arguments w)) = files w"
    by (simp add: search_arxiv_eq split: option.splits)
  have s: "files (snd (search_scholar env arguments w)) = files w"
    by (simp add: search_scholar_eq split: option.splits)
  have x: "files (snd (search_preprint_servers env arguments w)) = files w"
  proof (cases "dict_index arguments ''query''")
    case (Inl e)
    then show ?thesis by (simp add: search_preprint_servers_def)
  next
    case q: (Inr query)
    show ?thesis
    proof (cases "py_iter (dict_get arguments ''servers'' default_servers)")
      case (Inl e)
      with q show ?thesis by (simp add: search_preprint_servers_def)
    next
      case (Inr servers)
      obtain r w' where l: "preprint_loop env query servers ([], []) w = (r, w')"
        by (cases "preprint_loop env query servers ([], []) w")
      with preprint_loop_files[of env query servers "([], [])" w] have "files w' = files w" by simp
      with q Inr l show ?thesis
        by (cases r) (auto simp: search_preprint_servers_def split: prod.splits)
    qed
  qed
  have c: "files (snd (get_citations env arguments w)) = files w"
    by (simp add: get_citations_def Let_def split: sum.splits)
  have j: "files (snd (search_journal_impact env arguments w)) = files w"
  proof (cases "dict_index arguments ''journal_name''")
    case (Inl e)
    then show ?thesis by (simp add: search_journal_impact_def)
  next
    case (Inr jn)
    obtain r w' where t: "search_journal_impact_try env jn arguments w = (r, w')"
      by (cases "search_journal_impact_try env jn arguments w")
    have "files (snd (search_journal_impact_try env jn arguments w)) = files w"
      by (simp add: search_journal_impact_try_def Let_def split: option.splits sum.splits)
    with t have "files w' = files w" by simp
    with Inr t show ?thesis by (cases r) (simp_all add: search_journal_impact_def)
  qed
  have u: "files (snd (update_preprint_dumps env arguments w)) = files w"
  proof (cases "py_iter (dict_get arguments ''servers'' default_servers)")
    case (Inl e)
    then show ?thesis by (simp add: update_preprint_dumps_def Let_def)
  next
    case (Inr servers)
    let ?sd = "dict_get arguments ''start_date'' PNone"
    let ?ed = "dict_get arguments ''end_date'' PNone"
    let ?hdr = "''Updating preprint server dumps...\<newline>\<newline>''"
    obtain r w' where l: "update_loop env ?sd ?ed servers ?hdr w = (r, w')"
      by (cases "update_loop env ?sd ?ed servers ?hdr w")
    with update_loop_files[of env ?sd ?ed servers ?hdr w] have "files w' = files w" by simp
    with Inr l show ?thesis by (simp add: update_preprint_dumps_def Let_def)
  qed
  from assms p a s x c j u show ?thesis
    by (simp add: handle_call_tool_snd handle_call_tool_try_def)
qed

subsection \<open>The file that the PDF download leaves behind\<close>

lemma download_body_files:
  "path_join (tmp_path d) filename = Inr filepath \<Longrightarrow>
   files (snd (download_body env doi filename d w))
     = files (write_file filepath (snd (save_pdf env (PStr doi) filepath)) w)"
  by (simp add: download_body_def write_file_def Let_def split_beta
        split: sum.splits option.splits)

lemma download_paper_pdf_files_body:
  assumes "arguments ''doi'' = Some (PStr doi)"
  shows "files (snd (download_paper_pdf env arguments w))
           = filter (\<lambda>f. \<not> inside_dir (fresh_id w) (fst f))
               (files (snd (download_body env doi
                              (dict_get arguments ''filename'' (PStr (replace_slash doi @ ''.pdf'')))
                              (fresh_id w) (w\<lparr>tmp_dirs := fresh_id w # tmp_dirs w\<rparr>))))"
proof -
  let ?filename = "dict_get arguments ''filename'' (PStr (replace_slash doi @ ''.pdf''))"
  let ?w1 = "w\<lparr>tmp_dirs := fresh_id w # tmp_dirs w\<rparr>"
  obtain r w2 where b: "download_body env doi ?filename (fresh_id w) ?w1 = (r, w2)"
    by (cases "download_body env doi ?filename (fresh_id w) ?w1")
  with assms show ?thesis
    by (cases r) (simp_all add: download_paper_pdf_def dict_index_def TemporaryDirectory_def Let_def
                     cleanup_dir_def)
qed

lemma download_paper_pdf_files:
  assumes "arguments ''doi'' = Some (PStr doi)"
    and "path_join (tmp_path (fresh_id w))
           (dict_get arguments ''filename'' (PStr (replace_slash doi @ ''.pdf''))) = Inr filepath"
  shows "files (snd (download_paper_pdf env arguments w))
           = filter (\<lambda>f. \<not> inside_dir (fresh_id w) (fst f))
               (files (write_file filepath (snd (save_pdf env (PStr doi) filepath)) w))"
proof -
  let ?w1 = "w\<lparr>tmp_dirs := fresh_id w # tmp_dirs w\<rparr>"
  have "files (write_file filepath (snd (save_pdf env (PStr doi) filepath)) ?w1)
          = files (write_file filepath (snd (save_pdf env (PStr doi) filepath)) w)"
    by (simp add: write_file_def Let_def split: option.splits)
  with download_paper_pdf_files_body[where arguments = arguments and doi = doi and env = env and w = w, OF assms(1)]
    download_body_files[OF assms(2), of env doi ?w1]
  show ?thesis by simp
qed

text \<open>
  Whatever \<^verbatim>\<open>save_pdf\<close> leaves in the temporary directory or below it is gone when the
  call returns; a file it leaves at a path outside that directory is still there.
\<close>

lemma download_paper_pdf_cleans_dir:
  assumes "arguments ''doi'' = Some (PStr doi)"
    and "f \<in> set (files (snd (download_paper_pdf env arguments w)))"
  shows "\<not> inside_dir (fresh_id w) (fst f)"
  using assms(2)
  unfolding download_paper_pdf_files_body[where arguments = arguments and doi = doi, OF assms(1)]
  by simp

lemma download_paper_pdf_file_survives:
  assumes "arguments ''doi'' = Some (PStr doi)"
    and "path_join (tmp_path (fresh_id w))
           (dict_get arguments ''filename'' (PStr (replace_slash doi @ ''.pdf''))) = Inr filepath"
    and "snd (save_pdf env (PStr doi) filepath) = Some bytes"
    and "\<not> inside_dir (fresh_id w) (path_components filepath)"
  shows "(path_components filepath, bytes) \<in> set (files (snd (download_paper_pdf env arguments w)))"
  using download_paper_pdf_files[where arguments = arguments and doi = doi and env = env and w = w
          and filepath = filepath, OF assms(1,2)] assms(3,4)
  by (simp add: write_file_def Let_def)

text \<open>
  C3 at the input \<^verbatim>\<open>{"doi": "10.1000/x", "filename": "/home/user/leak.pdf"}\<close> of
  \<^verbatim>\<open>download_paper_pdf\<close>, with a \<^verbatim>\<open>save_pdf\<close> that writes the PDF to the path it is given:
  \<^verbatim>\<open>os.path.join(temp_dir, filename)\<close> is the absolute file name itself, so the file the
  call creates, and reports as saved to a temporary location, lies outside the temporary
  directory and is still there when the call has returned and the directory is gone. The
  same happens with the file name \<^verbatim>\<open>../leak.pdf\<close>. With the default file name the file
  lies in the temporary directory and is removed with it.
\<close>

theorem download_paper_pdf_file_outlives_call:
  "fst (handle_call_tool pdf_env ''download_paper_pdf''
          [''doi'' \<mapsto> PStr ''10.1000/x'', ''filename'' \<mapsto> PStr ''/home/user/leak.pdf''] empty_world)
     = [TextContent ''text''
          ''Successfully downloaded PDF for DOI: 10.1000/x\<newline>File size: 1,000 bytes\<newline>Saved to temporary location: /home/user/leak.pdf''] \<and>
   tmp_dirs (snd (handle_call_tool pdf_env ''download_paper_pdf''
                    [''doi'' \<mapsto> PStr ''10.1000/x'', ''filename'' \<mapsto> PStr ''/home/user/leak.pdf''] empty_world))
     = [] \<and>
   files (snd (handle_call_tool pdf_env ''download_paper_pdf''
                 [''doi'' \<mapsto> PStr ''10.1000/x'', ''filename'' \<mapsto> PStr ''/home/user/leak.pdf''] empty_world))
     = [([''home'', ''user'', ''leak.pdf''], 1000)] \<and>
   files empty_world = [] \<and>
   files (snd (handle_call_tool pdf_env ''download_paper_pdf''
                 [''doi'' \<mapsto> PStr ''10.1000/x'', ''filename'' \<mapsto> PStr ''../leak.pdf''] empty_world))
     = [([''tmp'', ''leak.pdf''], 1000)] \<and>
   files (snd (handle_call_tool pdf_env ''download_paper_pdf''
                 [''doi'' \<mapsto> PStr ''10.1000/x''] empty_world))
     = []"
  by code_simp

end
